theory Spec2Isabelle
  imports Main "HOL-Library.Finite_Map"
begin

section \<open>Values, documents and change events\<close>

text \<open>
  The values that can stand where the source reads a document's \<open>_id\<close> or a field:
  JavaScript's \<open>undefined\<close> and \<open>null\<close>, strings, numbers, booleans, and the source
  store's binary object id (written by its 24-digit hexadecimal form). A string is
  written in an encoding that keeps ASCII (UTF-8). A number is written as
  \<open>Number.prototype.toString\<close> prints it (\<open>7\<close>, \<open>-1.5\<close>, \<open>1e+21\<close>, \<open>NaN\<close>): no two
  numbers print alike but the two zeros, which both print \<open>0\<close>.
\<close>

datatype jsval =
    JUndefined
  | JNull
  | JString string
  | JNumber string
  | JBool bool
  | JObjectId string

text \<open>A document is an object: its fields in order. A missing field reads as \<open>undefined\<close>.\<close>

type_synonym document = "(string \<times> jsval) list"

definition field :: "document \<Rightarrow> string \<Rightarrow> jsval" where
  "field doc k = (case map_of doc k of None \<Rightarrow> JUndefined | Some v \<Rightarrow> v)"

text \<open>\<open>delete body._id\<close> and the rest pattern \<open>{_id, ...rest}\<close>: every field but \<open>_id\<close>.\<close>

definition delete_id :: "document \<Rightarrow> document" where
  "delete_id doc = filter (\<lambda>kv. fst kv \<noteq> ''_id'') doc"

text \<open>JavaScript truthiness, as tested by \<open>if (id)\<close> and \<open>!collName\<close>.\<close>

fun truthy :: "jsval \<Rightarrow> bool" where
  "truthy JUndefined = False"
| "truthy JNull = False"
| "truthy (JString s) = (s \<noteq> [])"
| "truthy (JNumber n) = (n \<noteq> ''0'' \<and> n \<noteq> ''NaN'')"
| "truthy (JBool b) = b"
| "truthy (JObjectId h) = True"

datatype error =
    TypeError
  | ResponseError nat
  | Error string

text \<open>Decimal digits of a count, as a template literal prints it.\<close>

fun digits :: "nat \<Rightarrow> string" where
  "digits n = (if n < 10 then [char_of (48 + n)] else digits (n div 10) @ [char_of (48 + n mod 10)])"

declare digits.simps [simp del]

text \<open>
  \<open>_id.toString()\<close>: a property read on \<open>undefined\<close> or \<open>null\<close> throws a TypeError;
  an object id prints its hexadecimal form, a number as it is written here.
\<close>

fun toString :: "jsval \<Rightarrow> error + string" where
  "toString JUndefined = Inl TypeError"
| "toString JNull = Inl TypeError"
| "toString (JString s) = Inr s"
| "toString (JNumber n) = Inr n"
| "toString (JBool b) = Inr (if b then ''true'' else ''false'')"
| "toString (JObjectId h) = Inr h"

definition is_JString :: "jsval \<Rightarrow> bool" where
  "is_JString v = (case v of JString s \<Rightarrow> True | _ \<Rightarrow> False)"

text \<open>
  A change event is untyped in the source (\<open>data: any\<close>). The fields the translator reads:
  \<open>operationType\<close>, \<open>ns.coll\<close>, \<open>documentKey._id\<close> and \<open>fullDocument\<close>. The feed's
  events for a dropped database and for an invalidated stream carry no collection
  (\<open>ns\<close> without \<open>coll\<close>, and no \<open>ns\<close> at all), so \<open>ns\<close> and \<open>coll\<close> are optional.
\<close>

record namespace =
  ns_db :: string
  ns_coll :: "string option"

record change_event =
  operationType :: string
  ns :: "namespace option"
  documentKey :: "document option"
  fullDocument :: "document option"

section \<open>The runtime and the two stores as an environment, and the program state\<close>

text \<open>One line of a bulk request body: the action \<open>{ index: { _index, _id } }\<close> or a source document.\<close>

datatype bulk_line =
    Action string jsval
  | Source document

text \<open>
  The bulk response: \<open>errors\<close> and \<open>items\<close>; an item is an object keyed by its operation
  type, holding \<open>status\<close> and, when the operation failed, \<open>error\<close>.
\<close>

record response_item =
  item_status :: "nat option"
  item_error :: "string option"

type_synonym bulk_action_result = "(string \<times> response_item) list"

record bulk_response =
  errors :: bool
  items :: "bulk_action_result list"

record errored_document =
  err_status :: "nat option"
  err_error :: "string option"
  err_operation :: "bulk_line option"
  err_document :: "bulk_line option"

record collection_info =
  ci_name :: string
  ci_type :: string

text \<open>What the console receives: the arguments of one \<open>console.log\<close> or \<open>console.error\<close>.\<close>

datatype console_arg =
    Str string
  | Doc "document option"
  | Err error
  | Errored "errored_document list"

datatype console =
    ConsoleLog "console_arg list"
  | ConsoleError "console_arg list"

text \<open>
  Every call the program makes on a store or on the console, in the order it makes them:
  \<^item> \<open>NewClient\<close>: \<open>new Client({node, tls})\<close>; \<open>MongoConnect\<close>: \<open>MongoClient.connect(mongoURL)\<close>;
  \<^item> \<open>ListCollections\<close>: \<open>db.listCollections().toArray()\<close>;
  \<^item> \<open>Find c\<close>: \<open>db.collection(c).find().toArray()\<close>;
  \<^item> \<open>Watch\<close>: \<open>db.watch([], {fullDocument: "updateLookup"})\<close> with the change handler registered;
  \<^item> \<open>IndicesDelete index\<close>: \<open>ESclient.indices.delete({index, ignore_unavailable: true})\<close>;
  \<^item> \<open>Delete index id\<close>: \<open>ESclient.delete({index, id})\<close>;
  \<^item> \<open>Update index id body\<close>: \<open>ESclient.update({index, id, refresh: true, doc: body, doc_as_upsert: true})\<close>;
  \<^item> \<open>Index index id body\<close>: \<open>ESclient.index({index, id, document: body})\<close>;
  \<^item> \<open>Bulk data\<close>: \<open>ESclient.bulk({refresh: true, body: data})\<close>;
  \<^item> \<open>Count index\<close>: \<open>ESclient.count({index})\<close>.
\<close>

datatype effect =
    NewClient
  | MongoConnect
  | ListCollections
  | Find string
  | Watch
  | IndicesDelete string
  | Delete string jsval
  | Update string jsval "document option"
  | Index string jsval "document option"
  | Bulk "bulk_line list"
  | Count string
  | Console console

text \<open>
  The source store and the index engine are outside the program. Each of their operations
  is a function of the outside world \<open>'w\<close> that answers with a result or an error (the
  rejected promise, the thrown exception) and the world after the call. So is the
  runtime's \<open>String.prototype.toLowerCase\<close>, which follows the case mappings of Unicode:
  it is a function of the environment, of which nothing is fixed here.
\<close>

record 'w env =
  toLowerCase :: "string \<Rightarrow> string"
  new_client :: "'w \<Rightarrow> (error + unit) \<times> 'w"
  mongo_connect :: "'w \<Rightarrow> (error + unit) \<times> 'w"
  mongo_listCollections :: "'w \<Rightarrow> (error + collection_info list) \<times> 'w"
  mongo_find :: "string \<Rightarrow> 'w \<Rightarrow> (error + document list) \<times> 'w"
  es_indices_delete :: "string \<Rightarrow> 'w \<Rightarrow> (error + unit) \<times> 'w"
  es_delete :: "string \<Rightarrow> jsval \<Rightarrow> 'w \<Rightarrow> (error + unit) \<times> 'w"
  es_update :: "string \<Rightarrow> jsval \<Rightarrow> document option \<Rightarrow> 'w \<Rightarrow> (error + unit) \<times> 'w"
  es_index :: "string \<Rightarrow> jsval \<Rightarrow> document option \<Rightarrow> 'w \<Rightarrow> (error + unit) \<times> 'w"
  es_bulk :: "bulk_line list \<Rightarrow> 'w \<Rightarrow> (error + bulk_response) \<times> 'w"
  es_count :: "string \<Rightarrow> 'w \<Rightarrow> (error + nat) \<times> 'w"

text \<open>The \<open>Option\<close> interface, without the TLS settings (they only reach \<open>new Client\<close>).\<close>

record sync_option =
  opt_prefix :: string
  opt_initialSync :: bool
  opt_debug :: bool

text \<open>
  The \<open>Sync\<close> object: whether \<open>ESclient\<close> and \<open>db\<close> are set, the calls made so far
  (oldest first), and the outside world.
\<close>

record 'w sync =
  ESclient :: bool
  db :: bool
  trace :: "effect list"
  world :: 'w

definition emit :: "effect \<Rightarrow> 'w sync \<Rightarrow> 'w sync" where
  "emit e s = s\<lparr>trace := trace s @ [e]\<rparr>"

definition console_log :: "console_arg list \<Rightarrow> 'w sync \<Rightarrow> 'w sync" where
  "console_log args s = emit (Console (ConsoleLog args)) s"

definition console_error :: "console_arg list \<Rightarrow> 'w sync \<Rightarrow> 'w sync" where
  "console_error args s = emit (Console (ConsoleError args)) s"

text \<open>\<open>if (this.option.debug) console.log(msg)\<close>\<close>

definition debug_log :: "sync_option \<Rightarrow> string \<Rightarrow> 'w sync \<Rightarrow> 'w sync" where
  "debug_log opt msg s = (if opt_debug opt then console_log [Str msg] s else s)"

text \<open>An awaited call on a store: it is recorded, and the world moves on.\<close>

definition call :: "effect \<Rightarrow> ('w \<Rightarrow> (error + 'a) \<times> 'w) \<Rightarrow> 'w sync \<Rightarrow> (error + 'a) \<times> 'w sync" where
  "call e f s = (case f (world s) of (r, w) \<Rightarrow> (r, (emit e s)\<lparr>world := w\<rparr>))"

section \<open>Index naming\<close>

definition getPrefix :: "'w env \<Rightarrow> string \<Rightarrow> string \<Rightarrow> string" where
  "getPrefix env prefix collName = prefix @ ''__'' @ toLowerCase env collName"



definition ascii_toLowerCase_char :: "char \<Rightarrow> char" where
  "ascii_toLowerCase_char c =
     (let n = (of_char c :: nat) in if 65 \<le> n \<and> n \<le> 90 then char_of (n + 32) else c)"

definition ascii_toLowerCase :: "string \<Rightarrow> string" where
  "ascii_toLowerCase s = map ascii_toLowerCase_char s"




section \<open>Connection bootstrap\<close>

definition initElastic :: "sync_option \<Rightarrow> 'w env \<Rightarrow> 'w sync \<Rightarrow> (error + unit) \<times> 'w sync" where
  "initElastic opt env s =
     (case call NewClient (new_client env) s of
        (Inl e, s1) \<Rightarrow> (Inl e, debug_log opt ''Debug: Failed to connect elastic'' s1)
      | (Inr u, s1) \<Rightarrow> (Inr (), (debug_log opt ''Debug: Connected to elastic'' s1)\<lparr>ESclient := True\<rparr>))"

definition initMongo :: "sync_option \<Rightarrow> 'w env \<Rightarrow> 'w sync \<Rightarrow> (error + unit) \<times> 'w sync" where
  "initMongo opt env s =
     (case call MongoConnect (mongo_connect env) s of
        (Inl e, s1) \<Rightarrow> (Inl e, debug_log opt ''Debug: Failed to connect mongodb'' s1)
      | (Inr u, s1) \<Rightarrow> (Inr (), (debug_log opt ''Debug: Connected to mongodb'' s1)\<lparr>db := True\<rparr>))"

section \<open>Single index mutations\<close>

definition dropIndexOnElastic :: "sync_option \<Rightarrow> 'w env \<Rightarrow> string \<Rightarrow> 'w sync \<Rightarrow> (error + unit) \<times> 'w sync" where
  "dropIndexOnElastic opt env index s =
     (case call (IndicesDelete index) (es_indices_delete env index) s of
        (Inl e, s1) \<Rightarrow> (Inl e, debug_log opt ''Debug: Failed to drop index'' s1)
      | (Inr u, s1) \<Rightarrow> (Inr (), debug_log opt ''Debug: Elastic index dropped'' s1))"

definition deleteDataOnElastic :: "sync_option \<Rightarrow> 'w env \<Rightarrow> jsval \<Rightarrow> string \<Rightarrow> 'w sync \<Rightarrow> (error + unit) \<times> 'w sync" where
  "deleteDataOnElastic opt env ident index s =
     (case call (Delete index ident) (es_delete env index ident) s of
        (Inl e, s1) \<Rightarrow> (Inl e, debug_log opt ''Debug: Failed to delete index'' s1)
      | (Inr u, s1) \<Rightarrow> (Inr (), debug_log opt ''Debug: Elastic index deleted'' s1))"

definition updateDataOnElastic ::
  "sync_option \<Rightarrow> 'w env \<Rightarrow> jsval \<Rightarrow> string \<Rightarrow> document option \<Rightarrow> 'w sync \<Rightarrow> (error + unit) \<times> 'w sync" where
  "updateDataOnElastic opt env ident index body s =
     (case call (Update index ident body) (es_update env index ident body) s of
        (Inl e, s1) \<Rightarrow> (Inl e, debug_log opt ''Debug: Failed to update index'' s1)
      | (Inr u, s1) \<Rightarrow> (Inr (), debug_log opt ''Debug: Elastic index updated'' s1))"

definition createDataOnElastic ::
  "sync_option \<Rightarrow> 'w env \<Rightarrow> jsval \<Rightarrow> string \<Rightarrow> document option \<Rightarrow> 'w sync \<Rightarrow> (error + unit) \<times> 'w sync" where
  "createDataOnElastic opt env ident index body s =
     (case call (Index index ident body) (es_index env index ident body) s of
        (Inl e, s1) \<Rightarrow> (Inl e, debug_log opt ''Debug: Failed to create index'' s1)
      | (Inr u, s1) \<Rightarrow>
          (Inr (), debug_log opt ''Debug: Elastic index created'' (console_log [Str index, Doc body] s1)))"

section \<open>Event translator\<close>

text \<open>
  \<open>generateOperation\<close>. The index name is computed first, from \<open>data.ns.coll\<close>: reading
  \<open>coll\<close> of a missing \<open>ns\<close>, or calling \<open>toLowerCase\<close> on a missing \<open>coll\<close>, throws
  a TypeError before the \<open>switch\<close> is reached. The outer \<open>catch\<close> rethrows.
\<close>

definition generateOperation ::
  "sync_option \<Rightarrow> 'w env \<Rightarrow> change_event \<Rightarrow> 'w sync \<Rightarrow> (error + unit) \<times> 'w sync" where
  "generateOperation opt env data s =
     (case ns data of
        None \<Rightarrow> (Inl TypeError, s)
      | Some n \<Rightarrow>
         (case ns_coll n of
            None \<Rightarrow> (Inl TypeError, s)
          | Some coll \<Rightarrow>
             (let index = getPrefix env (opt_prefix opt) coll;
                  s1 = console_log [Str (operationType data)] s
              in if operationType data = ''delete'' then
                   (case documentKey data of
                      None \<Rightarrow> (Inl TypeError, s1)
                    | Some key \<Rightarrow> deleteDataOnElastic opt env (field key ''_id'') index s1)
                 else if operationType data = ''insert'' then
                   (let body = fullDocument data;
                        ident = (case body of None \<Rightarrow> JUndefined | Some b \<Rightarrow> field b ''_id'');
                        body = (if truthy ident then map_option delete_id body else body)
                    in createDataOnElastic opt env ident index body s1)
                 else if operationType data = ''update'' then
                   (let body = fullDocument data;
                        ident = (case body of None \<Rightarrow> JUndefined | Some b \<Rightarrow> field b ''_id'');
                        body = (if truthy ident then map_option delete_id body else body)
                    in updateDataOnElastic opt env ident index body (console_log [Doc body] s1))
                 else if operationType data = ''drop'' then
                   dropIndexOnElastic opt env index s1
                 else
                   (Inr (), console_log
                      [Str (''ERROR: mongo-elastic-sync: Unhandled operation '' @ operationType data @
                            '', log it here: https://github.com/souravj96/mongo-elastic-sync/issues'')] s1))))"

section \<open>Snapshot loader\<close>

text \<open>
  The \<open>flatMap\<close> over the documents read: two lines per document, the action with the
  stringified \<open>_id\<close> and the document without its \<open>_id\<close>. \<open>toString\<close> on a missing
  \<open>_id\<close> throws.
\<close>

fun bulk_data :: "string \<Rightarrow> document list \<Rightarrow> error + bulk_line list" where
  "bulk_data index [] = Inr []"
| "bulk_data index (doc # docs) =
     (case toString (field doc ''_id'') of
        Inl e \<Rightarrow> Inl e
      | Inr ident \<Rightarrow>
         (case bulk_data index docs of
            Inl e \<Rightarrow> Inl e
          | Inr ls \<Rightarrow> Inr (Action index (JString ident) # Source (delete_id doc) # ls)))"

text \<open>\<open>data[i]\<close>: \<open>undefined\<close> out of range.\<close>

definition at :: "'a list \<Rightarrow> nat \<Rightarrow> 'a option" where
  "at xs i = (if i < length xs then Some (xs ! i) else None)"

text \<open>
  The \<open>forEach\<close> over \<open>bulkResponse.items\<close>, from item \<open>i\<close> on: an item whose first key
  holds an \<open>error\<close> is pushed with lines \<open>2 i\<close> and \<open>2 i + 1\<close> of the request.
\<close>

fun erroredDocuments :: "bulk_line list \<Rightarrow> bulk_action_result list \<Rightarrow> nat \<Rightarrow> errored_document list" where
  "erroredDocuments data [] i = []"
| "erroredDocuments data (action # rest) i =
     (case action of
        [] \<Rightarrow> erroredDocuments data rest (Suc i)
      | (operation, r) # others \<Rightarrow>
          (if item_error r \<noteq> None
           then \<lparr>err_status = item_status r, err_error = item_error r,
                 err_operation = at data (i * 2), err_document = at data (i * 2 + 1)\<rparr>
                # erroredDocuments data rest (Suc i)
           else erroredDocuments data rest (Suc i)))"

definition newline :: string where
  "newline = [CHR 0x0A]"

definition createBulkDataOnElastic ::
  "sync_option \<Rightarrow> 'w env \<Rightarrow> string \<Rightarrow> document list \<Rightarrow> 'w sync \<Rightarrow> (error + unit) \<times> 'w sync" where
  "createBulkDataOnElastic opt env index body s =
     (let s0 = (if opt_debug opt then console_log [Str newline, Str index] s else s)
      in case bulk_data index body of
           Inl e \<Rightarrow> (Inl e, debug_log opt ''Debug: Failed to create bulk index'' s0)
         | Inr data \<Rightarrow>
            if data = [] then
              (Inr (), console_error [Str (''Index: '' @ index @ newline @ ''Error: No data available'')] s0)
            else
              (case call (Bulk data) (es_bulk env data) s0 of
                 (Inl e, s1) \<Rightarrow> (Inl e, debug_log opt ''Debug: Failed to create bulk index'' s1)
               | (Inr bulkResponse, s1) \<Rightarrow>
                  (let s2 = (if errors bulkResponse
                             then console_error [Str (''Errors in document while bulk: '' @ newline),
                                                 Errored (erroredDocuments data (items bulkResponse) 0)] s1
                             else s1)
                   in case call (Count index) (es_count env index) s2 of
                        (Inl e, s3) \<Rightarrow> (Inl e, debug_log opt ''Debug: Failed to create bulk index'' s3)
                      | (Inr count, s3) \<Rightarrow>
                         (let s4 = debug_log opt
                                     (''Number of documents from the collection db: '' @ digits (length body) @ newline @
                                      ''The number of documents indexed in the elastic: '' @ digits count) s3;
                              s5 = (if \<not> (count = length body)
                                    then console_error
                                           [Str ''The amount of data from the database and from elasticSearch is not the same, for INDEX:'',
                                            Str index] s4
                                    else s4)
                          in (Inr (), debug_log opt (''Debug: Elastic bulk index created: '' @ index) s5)))))"

text \<open>\<open>ele.type === "collection" ? ele.name : null\<close>\<close>

definition collection_names :: "collection_info list \<Rightarrow> string option list" where
  "collection_names collectionsArr =
     map (\<lambda>ele. if ci_type ele = ''collection'' then Some (ci_name ele) else None) collectionsArr"

text \<open>
  \<open>!collName || (excludedCollections && excludedCollections.includes(collName))\<close>:
  \<open>null\<close> and the empty string are falsy; a missing exclusion list excludes nothing.
\<close>

definition skipped :: "string list option \<Rightarrow> string option \<Rightarrow> bool" where
  "skipped excludedCollections collName =
     (case collName of
        None \<Rightarrow> True
      | Some c \<Rightarrow> c = [] \<or> (case excludedCollections of None \<Rightarrow> False | Some ex \<Rightarrow> c \<in> set ex))"

text \<open>
  The \<open>for\<close> loop of \<open>initDbSync\<close> over the names not yet visited. The inner
  \<open>if (collName)\<close> is the \<open>case\<close>: a name that is \<open>null\<close> has been skipped already.
\<close>

fun initDbSync_loop ::
  "sync_option \<Rightarrow> 'w env \<Rightarrow> string list option \<Rightarrow> string option list \<Rightarrow> 'w sync \<Rightarrow> (error + unit) \<times> 'w sync" where
  "initDbSync_loop opt env excludedCollections [] s = (Inr (), s)"
| "initDbSync_loop opt env excludedCollections (collName # rest) s =
     (if skipped excludedCollections collName then initDbSync_loop opt env excludedCollections rest s
      else
        (case collName of
           None \<Rightarrow> initDbSync_loop opt env excludedCollections rest s
         | Some c \<Rightarrow>
            (let index = getPrefix env (opt_prefix opt) c
             in case call (Find c) (mongo_find env c) s of
                  (Inl e, s1) \<Rightarrow> (Inl e, s1)
                | (Inr allData, s1) \<Rightarrow>
                   (case createBulkDataOnElastic opt env index allData s1 of
                      (Inl e, s2) \<Rightarrow> (Inl e, s2)
                    | (Inr u, s2) \<Rightarrow> initDbSync_loop opt env excludedCollections rest s2))))"

definition initDbSync ::
  "sync_option \<Rightarrow> 'w env \<Rightarrow> string list option \<Rightarrow> 'w sync \<Rightarrow> (error + unit) \<times> 'w sync" where
  "initDbSync opt env excludedCollections s =
     (case call ListCollections (mongo_listCollections env) s of
        (Inl e, s1) \<Rightarrow> (Inl e, debug_log opt ''Debug: Failed to initial sync mongodb'' s1)
      | (Inr collectionsArr, s1) \<Rightarrow>
         (case initDbSync_loop opt env excludedCollections (collection_names collectionsArr) s1 of
            (Inl e, s2) \<Rightarrow> (Inl e, debug_log opt ''Debug: Failed to initial sync mongodb'' s2)
          | (Inr u, s2) \<Rightarrow> (Inr (), s2)))"

section \<open>Dropping indices\<close>

text \<open>\<open>dropIndices\<close> receives the names themselves (a \<open>string[]\<close>); the empty name is skipped.\<close>

fun dropIndices_loop ::
  "sync_option \<Rightarrow> 'w env \<Rightarrow> string list option \<Rightarrow> string list \<Rightarrow> 'w sync \<Rightarrow> (error + unit) \<times> 'w sync" where
  "dropIndices_loop opt env excludedCollections [] s = (Inr (), s)"
| "dropIndices_loop opt env excludedCollections (collName # rest) s =
     (if skipped excludedCollections (Some collName) then dropIndices_loop opt env excludedCollections rest s
      else
        (case dropIndexOnElastic opt env (getPrefix env (opt_prefix opt) collName) s of
           (Inl e, s1) \<Rightarrow> (Inl e, s1)
         | (Inr u, s1) \<Rightarrow> dropIndices_loop opt env excludedCollections rest s1))"

definition dropIndices ::
  "sync_option \<Rightarrow> 'w env \<Rightarrow> string list \<Rightarrow> string list option \<Rightarrow> 'w sync \<Rightarrow> (error + unit) \<times> 'w sync" where
  "dropIndices opt env collectionsName excludedCollections s =
     (case dropIndices_loop opt env excludedCollections collectionsName s of
        (Inl e, s1) \<Rightarrow> (Inl e, debug_log opt ''Debug: Failed to drop indices in elastic'' s1)
      | (Inr u, s1) \<Rightarrow> (Inr (), s1))"

section \<open>Event translator, call by call\<close>

text \<open>
  \<open>generateOperation\<close> awaits at most one call on the index engine. While that call is in
  flight the handler that called it is suspended and other handlers run, so the
  translation is also given in its three parts: what runs up to and with the issue of
  the call, the call at the store, and what runs once the call has settled.
\<close>

datatype request =
    DeleteRequest string jsval
  | UpdateRequest string jsval "document option"
  | IndexRequest string jsval "document option"
  | IndicesDeleteRequest string

definition issued :: "request \<Rightarrow> effect" where
  "issued rq =
     (case rq of
        DeleteRequest index ident \<Rightarrow> Delete index ident
      | UpdateRequest index ident body \<Rightarrow> Update index ident body
      | IndexRequest index ident body \<Rightarrow> Index index ident body
      | IndicesDeleteRequest index \<Rightarrow> IndicesDelete index)"

definition perform :: "'w env \<Rightarrow> request \<Rightarrow> 'w \<Rightarrow> (error + unit) \<times> 'w" where
  "perform env rq =
     (case rq of
        DeleteRequest index ident \<Rightarrow> es_delete env index ident
      | UpdateRequest index ident body \<Rightarrow> es_update env index ident body
      | IndexRequest index ident body \<Rightarrow> es_index env index ident body
      | IndicesDeleteRequest index \<Rightarrow> es_indices_delete env index)"

text \<open>
  The part of \<open>generateOperation\<close> that runs before it is suspended: it throws, or
  returns without a call (the \<open>default\<close> branch), or has issued one call.
\<close>

definition begin_operation ::
  "sync_option \<Rightarrow> 'w env \<Rightarrow> change_event \<Rightarrow> 'w sync \<Rightarrow> (error + request option) \<times> 'w sync" where
  "begin_operation opt env data s =
     (case ns data of
        None \<Rightarrow> (Inl TypeError, s)
      | Some n \<Rightarrow>
         (case ns_coll n of
            None \<Rightarrow> (Inl TypeError, s)
          | Some coll \<Rightarrow>
             (let index = getPrefix env (opt_prefix opt) coll;
                  s1 = console_log [Str (operationType data)] s
              in if operationType data = ''delete'' then
                   (case documentKey data of
                      None \<Rightarrow> (Inl TypeError, s1)
                    | Some key \<Rightarrow>
                        (Inr (Some (DeleteRequest index (field key ''_id''))),
                         emit (Delete index (field key ''_id'')) s1))
                 else if operationType data = ''insert'' then
                   (let body = fullDocument data;
                        ident = (case body of None \<Rightarrow> JUndefined | Some b \<Rightarrow> field b ''_id'');
                        body = (if truthy ident then map_option delete_id body else body)
                    in (Inr (Some (IndexRequest index ident body)), emit (Index index ident body) s1))
                 else if operationType data = ''update'' then
                   (let body = fullDocument data;
                        ident = (case body of None \<Rightarrow> JUndefined | Some b \<Rightarrow> field b ''_id'');
                        body = (if truthy ident then map_option delete_id body else body)
                    in (Inr (Some (UpdateRequest index ident body)),
                        emit (Update index ident body) (console_log [Doc body] s1)))
                 else if operationType data = ''drop'' then
                   (Inr (Some (IndicesDeleteRequest index)), emit (IndicesDelete index) s1)
                 else
                   (Inr None, console_log
                      [Str (''ERROR: mongo-elastic-sync: Unhandled operation '' @ operationType data @
                            '', log it here: https://github.com/souravj96/mongo-elastic-sync/issues'')] s1))))"

text \<open>The part that runs once the call has settled with \<open>r\<close>: the rest of the function that made it.\<close>

definition end_operation ::
  "sync_option \<Rightarrow> request \<Rightarrow> error + unit \<Rightarrow> 'w sync \<Rightarrow> (error + unit) \<times> 'w sync" where
  "end_operation opt rq r s =
     (case rq of
        DeleteRequest index ident \<Rightarrow>
          (case r of
             Inl e \<Rightarrow> (Inl e, debug_log opt ''Debug: Failed to delete index'' s)
           | Inr u \<Rightarrow> (Inr (), debug_log opt ''Debug: Elastic index deleted'' s))
      | UpdateRequest index ident body \<Rightarrow>
          (case r of
             Inl e \<Rightarrow> (Inl e, debug_log opt ''Debug: Failed to update index'' s)
           | Inr u \<Rightarrow> (Inr (), debug_log opt ''Debug: Elastic index updated'' s))
      | IndexRequest index ident body \<Rightarrow>
          (case r of
             Inl e \<Rightarrow> (Inl e, debug_log opt ''Debug: Failed to create index'' s)
           | Inr u \<Rightarrow>
               (Inr (), debug_log opt ''Debug: Elastic index created'' (console_log [Str index, Doc body] s)))
      | IndicesDeleteRequest index \<Rightarrow>
          (case r of
             Inl e \<Rightarrow> (Inl e, debug_log opt ''Debug: Failed to drop index'' s)
           | Inr u \<Rightarrow> (Inr (), debug_log opt ''Debug: Elastic index dropped'' s)))"

section \<open>Change feed consumer\<close>

text \<open>
  \<open>initWatcher\<close> returns a promise and registers a handler for the feed's \<open>change\<close>
  events. A promise settles once: \<open>resolve\<close> and \<open>reject\<close> on a settled promise do nothing.
\<close>

datatype promise =
    Pending
  | Resolved
  | Rejected error

definition resolve :: "promise \<Rightarrow> promise" where
  "resolve p = (case p of Pending \<Rightarrow> Resolved | _ \<Rightarrow> p)"

definition reject :: "error \<Rightarrow> promise \<Rightarrow> promise" where
  "reject e p = (case p of Pending \<Rightarrow> Rejected e | _ \<Rightarrow> p)"

text \<open>
  The handler is an \<open>async\<close> function and the feed does not wait for it: a call of the
  handler runs up to its \<open>await\<close> and is then suspended, either on the call that
  \<open>generateOperation\<close> has issued or, when \<open>generateOperation\<close> has already returned or
  thrown, on nothing but its turn to go on. The watcher is the promise of \<open>initWatcher\<close>,
  the program state and the suspended calls of the handler, oldest first.
\<close>

datatype suspended =
    Awaits request
  | Finished "error + unit"

type_synonym 'w watcher = "promise \<times> 'w sync \<times> suspended list"

text \<open>
  The handler \<open>async (data, error) => { ... }\<close> up to its \<open>await\<close>. After \<open>reject(error)\<close>
  the handler goes on.
\<close>

definition on_change ::
  "sync_option \<Rightarrow> 'w env \<Rightarrow> change_event \<Rightarrow> error option \<Rightarrow> 'w watcher \<Rightarrow> 'w watcher" where
  "on_change opt env data error ws =
     (case ws of (p, s, hs) \<Rightarrow>
        (let p1 = (case error of Some e \<Rightarrow> reject e p | None \<Rightarrow> p);
             s1 = debug_log opt ''Debug: Change event triggered'' s
         in case begin_operation opt env data s1 of
              (Inl e, s2) \<Rightarrow> (p1, s2, hs @ [Finished (Inl e)])
            | (Inr None, s2) \<Rightarrow> (p1, s2, hs @ [Finished (Inr ())])
            | (Inr (Some rq), s2) \<Rightarrow> (p1, s2, hs @ [Awaits rq])))"

text \<open>
  The end of the handler, from the outcome \<open>r\<close> of \<open>generateOperation\<close>: \<open>resolve()\<close> when
  it returned, the \<open>catch\<close> with \<open>reject(error)\<close> when it threw.
\<close>

definition settle :: "sync_option \<Rightarrow> error + unit \<Rightarrow> promise \<times> 'w sync \<Rightarrow> promise \<times> 'w sync" where
  "settle opt r ps =
     (case ps of (p, s) \<Rightarrow>
        (case r of
           Inr u \<Rightarrow> (resolve p, s)
         | Inl e \<Rightarrow> (reject e p, debug_log opt ''Debug: Error in change event'' s)))"

text \<open>
  The suspended call at position \<open>k\<close> goes on to its end: the store performs the call it
  awaits, if any, and answers; \<open>generateOperation\<close> finishes; the handler settles the
  promise. Nothing happens when there is no suspended call at \<open>k\<close>.
\<close>

definition resume :: "sync_option \<Rightarrow> 'w env \<Rightarrow> nat \<Rightarrow> 'w watcher \<Rightarrow> 'w watcher" where
  "resume opt env k ws =
     (case ws of (p, s, hs) \<Rightarrow>
        if k < length hs then
          (case hs ! k of
             Finished r \<Rightarrow>
               (case settle opt r (p, s) of (p1, s1) \<Rightarrow> (p1, s1, take k hs @ drop (Suc k) hs))
           | Awaits rq \<Rightarrow>
               (case perform env rq (world s) of
                  (r, w) \<Rightarrow>
                    (case end_operation opt rq r (s\<lparr>world := w\<rparr>) of
                       (r1, s1) \<Rightarrow>
                         (case settle opt r1 (p, s1) of (p2, s2) \<Rightarrow> (p2, s2, take k hs @ drop (Suc k) hs)))))
        else ws)"

text \<open>Opening the subscription: the promise is pending, the handler is registered, no call of it is suspended.\<close>

definition initWatcher :: "'w sync \<Rightarrow> 'w watcher" where
  "initWatcher s = (Pending, emit Watch s, [])"

text \<open>
  What happens to the watcher, in order: the feed emits a change event (the emitter
  passes the event alone, so the handler's second parameter is \<open>undefined\<close>), or the
  suspended call at a position goes on.
\<close>

datatype feed_step =
    Change change_event
  | Resume nat

definition step :: "sync_option \<Rightarrow> 'w env \<Rightarrow> feed_step \<Rightarrow> 'w watcher \<Rightarrow> 'w watcher" where
  "step opt env st ws =
     (case st of
        Change data \<Rightarrow> on_change opt env data None ws
      | Resume k \<Rightarrow> resume opt env k ws)"

fun deliver ::
  "sync_option \<Rightarrow> 'w env \<Rightarrow> feed_step list \<Rightarrow> 'w watcher \<Rightarrow> 'w watcher" where
  "deliver opt env [] ws = ws"
| "deliver opt env (st # rest) ws = deliver opt env rest (step opt env st ws)"

text \<open>Events that arrive one at a time: each is handled to its end before the next is emitted.\<close>

fun one_at_a_time :: "change_event list \<Rightarrow> feed_step list" where
  "one_at_a_time [] = []"
| "one_at_a_time (data # rest) = Change data # Resume 0 # one_at_a_time rest"

text \<open>
  \<open>await this.initWatcher()\<close>: the steps are taken until the promise settles; the steps
  after that are returned, still to be taken.
\<close>

fun await ::
  "sync_option \<Rightarrow> 'w env \<Rightarrow> feed_step list \<Rightarrow> 'w watcher \<Rightarrow> 'w watcher \<times> feed_step list" where
  "await opt env [] ws = (ws, [])"
| "await opt env (st # rest) ws =
     (if fst ws = Pending then await opt env rest (step opt env st ws)
      else (ws, st # rest))"

section \<open>Sync orchestrator\<close>

text \<open>\<open>if (!this.ESclient) await this.initElastic(); if (!this.db) await this.initMongo();\<close>\<close>

definition connect :: "sync_option \<Rightarrow> 'w env \<Rightarrow> 'w sync \<Rightarrow> (error + unit) \<times> 'w sync" where
  "connect opt env s =
     (case (if \<not> ESclient s then initElastic opt env s else (Inr (), s)) of
        (Inl e, s1) \<Rightarrow> (Inl e, s1)
      | (Inr u, s1) \<Rightarrow> (if \<not> db s1 then initMongo opt env s1 else (Inr (), s1)))"

definition initialSync ::
  "sync_option \<Rightarrow> 'w env \<Rightarrow> string list option \<Rightarrow> 'w sync \<Rightarrow> (error + unit) \<times> 'w sync" where
  "initialSync opt env excludedCollections s =
     (case (case connect opt env s of
              (Inl e, s1) \<Rightarrow> (Inl e, s1)
            | (Inr u, s1) \<Rightarrow>
                initDbSync opt env excludedCollections (debug_log opt ''Debug: Initial mongodb sync started'' s1)) of
        (Inl e, s2) \<Rightarrow> (if opt_debug opt then (Inl e, s2) else (Inr (), s2))
      | (Inr u, s2) \<Rightarrow> (Inr (), s2))"

text \<open>
  \<open>startSync\<close> on what happens to the watcher once it is open. The result is \<open>None\<close>
  while the awaited promise is pending, otherwise how \<open>startSync\<close> completed; with it, the
  state at that moment, the calls of the handler then suspended, and the steps not yet
  taken. The \<open>catch\<close>: \<open>if (this.option.debug) throw error; else return console.log(error)\<close>.
\<close>

definition top_catch ::
  "sync_option \<Rightarrow> error \<Rightarrow> 'w sync \<Rightarrow> (error + unit) \<times> 'w sync" where
  "top_catch opt e s = (if opt_debug opt then (Inl e, s) else (Inr (), console_log [Err e] s))"

definition startSync ::
  "sync_option \<Rightarrow> 'w env \<Rightarrow> string list option \<Rightarrow> feed_step list \<Rightarrow> 'w sync \<Rightarrow>
     (error + unit) option \<times> 'w sync \<times> suspended list \<times> feed_step list" where
  "startSync opt env excludedCollections steps s =
     (case connect opt env s of
        (Inl e, s1) \<Rightarrow> (case top_catch opt e s1 of (r, s') \<Rightarrow> (Some r, s', [], steps))
      | (Inr u, s1) \<Rightarrow>
         (case (if opt_initialSync opt then initialSync opt env excludedCollections s1 else (Inr (), s1)) of
            (Inl e, s2) \<Rightarrow> (case top_catch opt e s2 of (r, s') \<Rightarrow> (Some r, s', [], steps))
          | (Inr u, s2) \<Rightarrow>
             (case await opt env steps (initWatcher s2) of
                ((Pending, s3, hs), rest) \<Rightarrow> (None, s3, hs, rest)
              | ((Resolved, s3, hs), rest) \<Rightarrow> (Some (Inr ()), s3, hs, rest)
              | ((Rejected e, s3, hs), rest) \<Rightarrow>
                  (case top_catch opt e s3 of (r, s') \<Rightarrow> (Some r, s', hs, rest)))))"

definition startDropIndices ::
  "sync_option \<Rightarrow> 'w env \<Rightarrow> string list \<Rightarrow> string list option \<Rightarrow> 'w sync \<Rightarrow> (error + unit) \<times> 'w sync" where
  "startDropIndices opt env collectionsName excludedCollections s =
     (case (case connect opt env s of
              (Inl e, s1) \<Rightarrow> (Inl e, s1)
            | (Inr u, s1) \<Rightarrow> dropIndices opt env collectionsName excludedCollections s1) of
        (Inl e, s2) \<Rightarrow> top_catch opt e s2
      | (Inr u, s2) \<Rightarrow> (Inr (), s2))"

section \<open>A reference store\<close>

text \<open>
  A source store and an index engine to run the program against. The source store is a
  catalog of named, typed collections, some of which may be unreadable. The index engine
  keeps, per index, the documents by id: a write under an id replaces the document held
  under that id, a delete of a document that is not there is answered with status 404
  (which the client throws as a response error), and a write without an id is given a
  fresh one. A delete or an update without an id fails in the client, which calls
  \<open>toString\<close> on the id to build the request.
\<close>

record store =
  collections :: "(string \<times> string \<times> document list) list"
  unreadable :: "string list"
  indices :: "(string, (string, document) fmap) fmap"
  auto_ids :: nat

text \<open>The id as the client puts it in the request: none for \<open>undefined\<close> and \<open>null\<close>.\<close>

definition request_id :: "jsval \<Rightarrow> string option" where
  "request_id v = (case toString v of Inl e \<Rightarrow> None | Inr k \<Rightarrow> Some k)"

definition documents_of :: "store \<Rightarrow> string \<Rightarrow> (string, document) fmap" where
  "documents_of w index = (case fmlookup (indices w) index of None \<Rightarrow> fmempty | Some m \<Rightarrow> m)"

definition put :: "string \<Rightarrow> jsval \<Rightarrow> document \<Rightarrow> store \<Rightarrow> store" where
  "put index ident doc w =
     (case request_id ident of
        Some k \<Rightarrow> w\<lparr>indices := fmupd index (fmupd k doc (documents_of w index)) (indices w)\<rparr>
      | None \<Rightarrow> w\<lparr>indices := fmupd index (fmupd (''auto-'' @ digits (auto_ids w)) doc (documents_of w index)) (indices w),
                  auto_ids := Suc (auto_ids w)\<rparr>)"

definition ref_listCollections :: "store \<Rightarrow> (error + collection_info list) \<times> store" where
  "ref_listCollections w =
     (Inr (map (\<lambda>(n, t, ds). \<lparr>ci_name = n, ci_type = t\<rparr>) (collections w)), w)"

definition ref_find :: "string \<Rightarrow> store \<Rightarrow> (error + document list) \<times> store" where
  "ref_find c w =
     (if c \<in> set (unreadable w) then (Inl (Error ''read failed''), w)
      else (Inr (case map_of (collections w) c of None \<Rightarrow> [] | Some (t, ds) \<Rightarrow> ds), w))"

definition ref_indices_delete :: "string \<Rightarrow> store \<Rightarrow> (error + unit) \<times> store" where
  "ref_indices_delete index w = (Inr (), w\<lparr>indices := fmdrop index (indices w)\<rparr>)"

definition ref_delete :: "string \<Rightarrow> jsval \<Rightarrow> store \<Rightarrow> (error + unit) \<times> store" where
  "ref_delete index ident w =
     (case request_id ident of
        None \<Rightarrow> (Inl TypeError, w)
      | Some k \<Rightarrow>
         (case fmlookup (documents_of w index) k of
            None \<Rightarrow> (Inl (ResponseError 404), w)
          | Some d \<Rightarrow> (Inr (), w\<lparr>indices := fmupd index (fmdrop k (documents_of w index)) (indices w)\<rparr>)))"

definition ref_index :: "string \<Rightarrow> jsval \<Rightarrow> document option \<Rightarrow> store \<Rightarrow> (error + unit) \<times> store" where
  "ref_index index ident body w =
     (case body of
        None \<Rightarrow> (Inl (ResponseError 400), w)
      | Some doc \<Rightarrow> (Inr (), put index ident doc w))"

text \<open>A partial update with \<open>doc_as_upsert\<close>: the fields given replace those held.\<close>

definition ref_update :: "string \<Rightarrow> jsval \<Rightarrow> document option \<Rightarrow> store \<Rightarrow> (error + unit) \<times> store" where
  "ref_update index ident body w =
     (case request_id ident of
        None \<Rightarrow> (Inl TypeError, w)
      | Some k \<Rightarrow>
         (case body of
            None \<Rightarrow> (Inl (ResponseError 400), w)
          | Some doc \<Rightarrow>
             (let old = (case fmlookup (documents_of w index) k of None \<Rightarrow> [] | Some d \<Rightarrow> d)
              in (Inr (), put index ident (filter (\<lambda>kv. fst kv \<notin> fst ` set doc) old @ doc) w))))"

text \<open>A bulk body is read two lines at a time; every item is an \<open>index\<close> write.\<close>

fun bulk_writes :: "bulk_line list \<Rightarrow> (string \<times> jsval \<times> document) list option" where
  "bulk_writes [] = Some []"
| "bulk_writes (Action index ident # Source doc # ls) =
     map_option (\<lambda>ws. (index, ident, doc) # ws) (bulk_writes ls)"
| "bulk_writes ls = None"

definition ref_bulk :: "bulk_line list \<Rightarrow> store \<Rightarrow> (error + bulk_response) \<times> store" where
  "ref_bulk data w =
     (case bulk_writes data of
        None \<Rightarrow> (Inl (ResponseError 400), w)
      | Some ws \<Rightarrow>
         (Inr \<lparr>errors = False,
               items = map (\<lambda>x. [(''index'', \<lparr>item_status = Some 200, item_error = None\<rparr>)]) ws\<rparr>,
          fold (\<lambda>(index, ident, doc). put index ident doc) ws w))"

definition ref_count :: "string \<Rightarrow> store \<Rightarrow> (error + nat) \<times> store" where
  "ref_count index w =
     (case fmlookup (indices w) index of
        None \<Rightarrow> (Inl (ResponseError 404), w)
      | Some m \<Rightarrow> (Inr (fcard (fmdom m)), w))"

definition ref_env :: "(string \<Rightarrow> string) \<Rightarrow> store env" where
  "ref_env lower =
     \<lparr>toLowerCase = lower,
      new_client = (\<lambda>w. (Inr (), w)),
      mongo_connect = (\<lambda>w. (Inr (), w)),
      mongo_listCollections = ref_listCollections,
      mongo_find = ref_find,
      es_indices_delete = ref_indices_delete,
      es_delete = ref_delete,
      es_update = ref_update,
      es_index = ref_index,
      es_bulk = ref_bulk,
      es_count = ref_count\<rparr>"

text \<open>A connected \<open>Sync\<close> object on a world, with nothing done yet.\<close>

definition connected :: "'w \<Rightarrow> 'w sync" where
  "connected w = \<lparr>ESclient = True, db = True, trace = [], world = w\<rparr>"

definition fresh :: "'w \<Rightarrow> 'w sync" where
  "fresh w = \<lparr>ESclient = False, db = False, trace = [], world = w\<rparr>"

section \<open>Example runs\<close>

text \<open>The examples write every name in ASCII, which the runtime lower-cases letter by letter.\<close>

definition example_env :: "store env" where
  "example_env = ref_env ascii_toLowerCase"

text \<open>The options used in the examples: no debug output, snapshot before watching.\<close>

definition example_option :: sync_option where
  "example_option = \<lparr>opt_prefix = ''sync'', opt_initialSync = True, opt_debug = False\<rparr>"

text \<open>
  A source store with three collections and no index yet. The two documents of \<open>twins\<close>
  have different ids (the string \<open>"7"\<close> and the number \<open>7\<close>) that print the same.
\<close>

definition orders :: "document list" where
  "orders =
     [[(''_id'', JObjectId ''o1''), (''status'', JString ''new'')],
      [(''_id'', JObjectId ''o2''), (''status'', JString ''paid'')],
      [(''_id'', JObjectId ''o3''), (''status'', JString ''new'')]]"

definition twins :: "document list" where
  "twins =
     [[(''_id'', JString ''7''), (''v'', JNumber ''1'')],
      [(''_id'', JNumber ''7''), (''v'', JNumber ''2'')]]"

definition pages :: "document list" where
  "pages = [[(''_id'', JObjectId ''p1''), (''title'', JString ''home'')]]"

definition example_store :: store where
  "example_store =
     \<lparr>collections = [(''twins'', ''collection'', twins), (''orders'', ''collection'', orders),
                     (''pages'', ''collection'', pages)],
      unreadable = [],
      indices = fmempty,
      auto_ids = 0\<rparr>"

text \<open>The same store with the collection \<open>twins\<close> unreadable.\<close>

definition broken_store :: store where
  "broken_store = example_store\<lparr>unreadable := [''twins'']\<rparr>"

text \<open>An insert into \<open>orders\<close> as the feed reports it.\<close>

definition insert_o4 :: change_event where
  "insert_o4 =
     \<lparr>operationType = ''insert'',
      ns = Some \<lparr>ns_db = ''shop'', ns_coll = Some ''orders''\<rparr>,
      documentKey = Some [(''_id'', JObjectId ''o4'')],
      fullDocument = Some [(''_id'', JObjectId ''o4''), (''status'', JString ''new'')]\<rparr>"

text \<open>The delete of order \<open>o1\<close>, and an insert into \<open>pages\<close>.\<close>

definition delete_o1 :: change_event where
  "delete_o1 =
     \<lparr>operationType = ''delete'',
      ns = Some \<lparr>ns_db = ''shop'', ns_coll = Some ''orders''\<rparr>,
      documentKey = Some [(''_id'', JObjectId ''o1'')],
      fullDocument = None\<rparr>"

definition insert_p2 :: change_event where
  "insert_p2 =
     \<lparr>operationType = ''insert'',
      ns = Some \<lparr>ns_db = ''shop'', ns_coll = Some ''pages''\<rparr>,
      documentKey = Some [(''_id'', JObjectId ''p2'')],
      fullDocument = Some [(''_id'', JObjectId ''p2''), (''title'', JString ''about'')]\<rparr>"

definition update_o2 :: change_event where
  "update_o2 =
     \<lparr>operationType = ''update'',
      ns = Some \<lparr>ns_db = ''shop'', ns_coll = Some ''orders''\<rparr>,
      documentKey = Some [(''_id'', JObjectId ''o2'')],
      fullDocument = Some [(''_id'', JObjectId ''o2''), (''status'', JString ''shipped'')]\<rparr>"

text \<open>
  The two events the feed of a database reports when the database is dropped: the drop
  itself, whose namespace names no collection, and the invalidation of the stream, which
  has no namespace.
\<close>

definition dropDatabase_event :: change_event where
  "dropDatabase_event =
     \<lparr>operationType = ''dropDatabase'',
      ns = Some \<lparr>ns_db = ''shop'', ns_coll = None\<rparr>,
      documentKey = None,
      fullDocument = None\<rparr>"

definition invalidate_event :: change_event where
  "invalidate_event =
     \<lparr>operationType = ''invalidate'', ns = None, documentKey = None, fullDocument = None\<rparr>"

text \<open>An event of a kind the translator does not handle, on a collection.\<close>

definition rename_event :: change_event where
  "rename_event =
     \<lparr>operationType = ''rename'',
      ns = Some \<lparr>ns_db = ''shop'', ns_coll = Some ''orders''\<rparr>,
      documentKey = None,
      fullDocument = None\<rparr>"

section \<open>Writes under explicit ids\<close>

text \<open>
  What the reference store does with a write of a document under a string id, on the
  indices alone, and with a list of such writes in order.
\<close>

type_synonym index_map = "(string, (string, document) fmap) fmap"

definition docs_in :: "index_map \<Rightarrow> string \<Rightarrow> (string, document) fmap" where
  "docs_in m i = (case fmlookup m i of None \<Rightarrow> fmempty | Some x \<Rightarrow> x)"

definition write_doc :: "string \<times> string \<times> document \<Rightarrow> index_map \<Rightarrow> index_map" where
  "write_doc w m = (case w of (i, k, d) \<Rightarrow> fmupd i (fmupd k d (docs_in m i)) m)"

definition write_docs :: "(string \<times> string \<times> document) list \<Rightarrow> index_map \<Rightarrow> index_map" where
  "write_docs ws m = fold write_doc ws m"

text \<open>The writes of a bulk body built from documents whose ids all print.\<close>

fun bulk_writes_of :: "string \<Rightarrow> document list \<Rightarrow> (string \<times> string \<times> document) list" where
  "bulk_writes_of index [] = []"
| "bulk_writes_of index (doc # docs) =
     (case toString (field doc ''_id'') of
        Inl e \<Rightarrow> bulk_writes_of index docs
      | Inr k \<Rightarrow> (index, k, delete_id doc) # bulk_writes_of index docs)"

text \<open>
  The writes of one run of the loader's loop on the reference store, from its catalog
  \<open>colls\<close> and its unreadable collections \<open>unread\<close>: the run stops at a collection that
  cannot be read or that holds a document whose id does not print.
\<close>

fun loader_writes ::
  "'w env \<Rightarrow> string \<Rightarrow> (string \<times> string \<times> document list) list \<Rightarrow> string list \<Rightarrow> string list option \<Rightarrow>
     string option list \<Rightarrow> (string \<times> string \<times> document) list" where
  "loader_writes env prefix colls unread excludedCollections [] = []"
| "loader_writes env prefix colls unread excludedCollections (collName # rest) =
     (if skipped excludedCollections collName then loader_writes env prefix colls unread excludedCollections rest
      else
        (case collName of
           None \<Rightarrow> loader_writes env prefix colls unread excludedCollections rest
         | Some c \<Rightarrow>
            if c \<in> set unread then []
            else
              (let body = (case map_of colls c of None \<Rightarrow> [] | Some (t, ds) \<Rightarrow> ds)
               in case bulk_data (getPrefix env prefix c) body of
                    Inl e \<Rightarrow> []
                  | Inr data \<Rightarrow>
                      bulk_writes_of (getPrefix env prefix c) body @
                      loader_writes env prefix colls unread excludedCollections rest)))"


section \<open>Outcome of a suspended call of the handler\<close>

text \<open>
  What \<open>generateOperation\<close> gives the suspended call \<open>h\<close> when it goes on in state \<open>s\<close>:
  the outcome it already has, or the outcome of the call it awaits.
\<close>

definition outcome :: "sync_option \<Rightarrow> 'w env \<Rightarrow> suspended \<Rightarrow> 'w sync \<Rightarrow> error + unit" where
  "outcome opt env h s =
     (case h of
        Finished r \<Rightarrow> r
      | Awaits rq \<Rightarrow>
          (case perform env rq (world s) of (r, w) \<Rightarrow> fst (end_operation opt rq r (s\<lparr>world := w\<rparr>))))"
section \<open>Index naming: properties\<close>







section \<open>Snapshot loader: the count check\<close>

lemmas run_defs = call_def emit_def debug_log_def console_log_def console_error_def

text \<open>
  C8. When a collection is read, its bulk write returns and the count query answers, the
  loader has queried the count of that collection's index after the bulk write, has
  written the warning naming the index exactly when the count differs from the number of
  documents read, and goes on with the remaining collections in either case.
\<close>

theorem count_mismatch_is_advisory:
  assumes "\<not> skipped excl (Some c)"
    and "mongo_find env c (world s) = (Inr body, w0)"
    and "bulk_data (getPrefix env (opt_prefix opt) c) body = Inr data"
    and "data \<noteq> []"
    and "es_bulk env data w0 = (Inr resp, w1)"
    and "es_count env (getPrefix env (opt_prefix opt) c) w1 = (Inr count, w2)"
  shows "initDbSync_loop opt env excl (Some c # rest) s =
         initDbSync_loop opt env excl rest
           (s\<lparr>trace := trace s @
                  [Find c] @
                  (if opt_debug opt
                   then [Console (ConsoleLog [Str newline, Str (getPrefix env (opt_prefix opt) c)])]
                   else []) @
                  [Bulk data] @
                  (if errors resp
                   then [Console (ConsoleError [Str (''Errors in document while bulk: '' @ newline),
                                                Errored (erroredDocuments data (items resp) 0)])]
                   else []) @
                  [Count (getPrefix env (opt_prefix opt) c)] @
                  (if opt_debug opt
                   then [Console (ConsoleLog
                           [Str (''Number of documents from the collection db: '' @ digits (length body) @ newline @
                                 ''The number of documents indexed in the elastic: '' @ digits count)])]
                   else []) @
                  (if count = length body then []
                   else [Console (ConsoleError
                           [Str ''The amount of data from the database and from elasticSearch is not the same, for INDEX:'',
                            Str (getPrefix env (opt_prefix opt) c)])]) @
                  (if opt_debug opt
                   then [Console (ConsoleLog
                           [Str (''Debug: Elastic bulk index created: '' @ getPrefix env (opt_prefix opt) c)])]
                   else []),
               world := w2\<rparr>)"
  using assms
  by (cases s) (simp add: createBulkDataOnElastic_def run_defs Let_def)

theorem count_mismatch_is_advisory_witness:
  "fst (initDbSync_loop example_option example_env None [Some ''twins'', Some ''orders''] (connected example_store)) = Inr () \<and>
   trace (snd (initDbSync_loop example_option example_env None [Some ''twins'', Some ''orders''] (connected example_store))) =
     [Find ''twins'',
      Bulk [Action ''sync__twins'' (JString ''7''), Source [(''v'', JNumber ''1'')],
            Action ''sync__twins'' (JString ''7''), Source [(''v'', JNumber ''2'')]],
      Count ''sync__twins'',
      Console (ConsoleError
        [Str ''The amount of data from the database and from elasticSearch is not the same, for INDEX:'',
         Str ''sync__twins'']),
      Find ''orders'',
      Bulk [Action ''sync__orders'' (JString ''o1''), Source [(''status'', JString ''new'')],
            Action ''sync__orders'' (JString ''o2''), Source [(''status'', JString ''paid'')],
            Action ''sync__orders'' (JString ''o3''), Source [(''status'', JString ''new'')]],
      Count ''sync__orders'']"
proof -
  let ?data = "[Action ''sync__twins'' (JString ''7''), Source [(''v'', JNumber ''1'')],
                Action ''sync__twins'' (JString ''7''), Source [(''v'', JNumber ''2'')]]"
  let ?resp = "\<lparr>errors = False,
                items = [[(''index'', \<lparr>item_status = Some 200, item_error = None\<rparr>)],
                         [(''index'', \<lparr>item_status = Some 200, item_error = None\<rparr>)]]\<rparr>"
  let ?w1 = "example_store\<lparr>indices := fmupd ''sync__twins'' (fmupd ''7'' [(''v'', JNumber ''2'')] fmempty) fmempty\<rparr>"
  have h1: "\<not> skipped None (Some ''twins'')"
    by code_simp
  have h2: "mongo_find example_env ''twins'' (world (connected example_store)) = (Inr twins, example_store)"
    by code_simp
  have h3: "bulk_data (getPrefix example_env (opt_prefix example_option) ''twins'') twins = Inr ?data"
    by code_simp
  have h4: "?data \<noteq> []"
    by simp
  have h5: "es_bulk example_env ?data example_store = (Inr ?resp, ?w1)"
    by code_simp
  have h6: "es_count example_env (getPrefix example_env (opt_prefix example_option) ''twins'') ?w1 = (Inr 1, ?w1)"
    by code_simp
  show ?thesis
    unfolding count_mismatch_is_advisory [OF h1 h2 h3 h4 h5 h6, of "[Some ''orders'']"]
    by code_simp
qed

section \<open>Snapshot loader: failures\<close>

lemma initDbSync_loop_append:
  "initDbSync_loop opt env excl (xs @ ys) s =
     (case initDbSync_loop opt env excl xs s of
        (Inl e, s') \<Rightarrow> (Inl e, s')
      | (Inr u, s') \<Rightarrow> initDbSync_loop opt env excl ys s')"
proof (induction xs arbitrary: s)
  case Nil
  show ?case by simp
next
  case (Cons x xs)
  show ?case
    by (simp add: Cons.IH Let_def split: option.split prod.split sum.split)
qed

lemma collection_names_append:
  "collection_names (xs @ ys) = collection_names xs @ collection_names ys"
  by (simp add: collection_names_def)

text \<open>A collection that cannot be read, or whose bulk call errors, fails its step of the loop.\<close>

lemma read_failure_fails_step:
  assumes "\<not> skipped excl (Some c)"
    and "mongo_find env c (world s) = (Inl e, w)"
  shows "initDbSync_loop opt env excl [Some c] s = (Inl e, s\<lparr>trace := trace s @ [Find c], world := w\<rparr>)"
  using assms by (cases s) (simp add: run_defs)

lemma bulk_failure_fails_step:
  assumes "\<not> skipped excl (Some c)"
    and "mongo_find env c (world s) = (Inr body, w0)"
    and "bulk_data (getPrefix env (opt_prefix opt) c) body = Inr data"
    and "data \<noteq> []"
    and "es_bulk env data w0 = (Inl e, w1)"
  shows "fst (initDbSync_loop opt env excl [Some c] s) = Inl e"
  using assms by (cases s) (simp add: createBulkDataOnElastic_def run_defs Let_def)

text \<open>
  C2, as the code has it. The loop runs inside one \<open>try\<close>: when the step of a collection
  fails (its documents cannot be read, or its bulk write errors), \<open>initDbSync\<close> rethrows
  that error, and the state it leaves is the state of the failed step: whatever
  collections the catalog lists after it, none is read or bulk-written.
\<close>

theorem snapshot_failure_ends_loader:
  assumes "mongo_listCollections env (world s) = (Inr (before @ later), w)"
    and "initDbSync_loop opt env excl (collection_names before)
           (s\<lparr>trace := trace s @ [ListCollections], world := w\<rparr>) = (Inl e, s')"
  shows "initDbSync opt env excl s = (Inl e, debug_log opt ''Debug: Failed to initial sync mongodb'' s')"
proof -
  have "call ListCollections (mongo_listCollections env) s =
          (Inr (before @ later), s\<lparr>trace := trace s @ [ListCollections], world := w\<rparr>)"
    using assms(1) by (simp add: call_def emit_def)
  then show ?thesis
    using assms(2)
    by (simp add: initDbSync_def collection_names_append initDbSync_loop_append)
qed

theorem snapshot_failure_ends_loader_witness:
  "initDbSync example_option example_env None (connected broken_store) =
     (Inl (Error ''read failed''),
      \<lparr>ESclient = True, db = True, trace = [ListCollections, Find ''twins''], world = broken_store\<rparr>)"
proof -
  have h1: "mongo_listCollections example_env (world (connected broken_store)) =
              (Inr ([\<lparr>ci_name = ''twins'', ci_type = ''collection''\<rparr>] @
                    [\<lparr>ci_name = ''orders'', ci_type = ''collection''\<rparr>,
                     \<lparr>ci_name = ''pages'', ci_type = ''collection''\<rparr>]), broken_store)"
    by code_simp
  have h2: "initDbSync_loop example_option example_env None
              (collection_names [\<lparr>ci_name = ''twins'', ci_type = ''collection''\<rparr>])
              ((connected broken_store)\<lparr>trace := trace (connected broken_store) @ [ListCollections],
                                         world := broken_store\<rparr>) =
            (Inl (Error ''read failed''),
             \<lparr>ESclient = True, db = True, trace = [ListCollections, Find ''twins''], world = broken_store\<rparr>)"
    by code_simp
  show ?thesis
    unfolding snapshot_failure_ends_loader [OF h1 h2]
    by code_simp
qed

text \<open>
  C2, as stated, fails: with \<open>twins\<close> unreadable the loader ends with the read error and
  the later collection \<open>orders\<close>, which is not excluded, is never read.
\<close>

theorem later_collection_not_synced:
  "fst (initDbSync example_option example_env None (connected broken_store)) = Inl (Error ''read failed'') \<and>
   Find ''orders'' \<notin> set (trace (snd (initDbSync example_option example_env None (connected broken_store)))) \<and>
   fmlookup (indices (world (snd (initDbSync example_option example_env None (connected broken_store))))) ''sync__orders'' = None"
  by code_simp

section \<open>Orchestrator\<close>

lemma initElastic_sets:
  assumes "initElastic opt env s = (Inr (), s1)"
  shows "ESclient s1 \<and> db s1 = db s"
proof (cases "new_client env (world s)")
  case (Pair r w)
  then show ?thesis
    using assms by (cases r) (auto simp: initElastic_def run_defs split: if_splits)
qed

lemma initMongo_sets:
  assumes "initMongo opt env s = (Inr (), s1)"
  shows "db s1 \<and> ESclient s1 = ESclient s"
proof (cases "mongo_connect env (world s)")
  case (Pair r w)
  then show ?thesis
    using assms by (cases r) (auto simp: initMongo_def run_defs split: if_splits)
qed

lemma connect_sets_handles:
  assumes "connect opt env s = (Inr (), s1)"
  shows "ESclient s1 \<and> db s1"
proof -
  obtain r sa where a: "(if \<not> ESclient s then initElastic opt env s else (Inr (), s)) = (r, sa)"
    by (cases "if \<not> ESclient s then initElastic opt env s else (Inr (), s)")
  with assms have r: "r = Inr ()" and b: "(if \<not> db sa then initMongo opt env sa else (Inr (), sa)) = (Inr (), s1)"
    by (cases r; simp add: connect_def)+
  have es: "ESclient sa"
    using a r initElastic_sets [of opt env s sa] by (cases "ESclient s") simp_all
  show ?thesis
    using b es initMongo_sets [of opt env sa s1] by (cases "db sa") simp_all
qed

lemma connect_again:
  assumes "ESclient s" and "db s"
  shows "connect opt env s = (Inr (), s)"
  using assms by (simp add: connect_def)

text \<open>
  C10. With debug off and the initial snapshot on, once both stores are connected a
  failure of the snapshot is swallowed by \<open>initialSync\<close>: it returns normally, in the
  state the failed snapshot left and with nothing logged. \<open>startSync\<close> then opens the
  watcher on that state and its result is the watcher's alone: pending until a call of
  the handler settles it, and never an error (a rejection is logged and \<open>startSync\<close>
  returns).
\<close>

theorem snapshot_failure_swallowed:
  assumes "\<not> opt_debug opt"
    and "opt_initialSync opt"
    and "connect opt env s = (Inr (), s1)"
    and "initDbSync opt env excl s1 = (Inl e, s2)"
  shows "initialSync opt env excl s1 = (Inr (), s2) \<and>
         startSync opt env excl steps s =
           (case await opt env steps (initWatcher s2) of
              ((Pending, s3, hs), rest) \<Rightarrow> (None, s3, hs, rest)
            | ((Resolved, s3, hs), rest) \<Rightarrow> (Some (Inr ()), s3, hs, rest)
            | ((Rejected e', s3, hs), rest) \<Rightarrow> (Some (Inr ()), console_log [Err e'] s3, hs, rest)) \<and>
         startSync opt env excl [] s = (None, emit Watch s2, [], []) \<and>
         (fst (startSync opt env excl steps s) = None \<or>
          fst (startSync opt env excl steps s) = Some (Inr ()))"
proof -
  have again: "connect opt env s1 = (Inr (), s1)"
    using connect_sets_handles [OF assms(3)] by (simp add: connect_again)
  have swallowed: "initialSync opt env excl s1 = (Inr (), s2)"
    using assms(1,4) again by (simp add: initialSync_def debug_log_def)
  have start: "startSync opt env excl sts s =
           (case await opt env sts (initWatcher s2) of
              ((Pending, s3, hs), rest) \<Rightarrow> (None, s3, hs, rest)
            | ((Resolved, s3, hs), rest) \<Rightarrow> (Some (Inr ()), s3, hs, rest)
            | ((Rejected e', s3, hs), rest) \<Rightarrow> (Some (Inr ()), console_log [Err e'] s3, hs, rest))" for sts
    using assms(1,2,3) swallowed
    by (simp add: startSync_def top_catch_def split: prod.split promise.split)
  have none: "startSync opt env excl [] s = (None, emit Watch s2, [], [])"
    by (simp add: start initWatcher_def)
  have outcome: "fst (startSync opt env excl steps s) = None \<or>
                 fst (startSync opt env excl steps s) = Some (Inr ())"
    by (simp add: start split: prod.split promise.split)
  from swallowed start none outcome show ?thesis by blast
qed

theorem snapshot_failure_swallowed_witness:
  "startSync example_option example_env None [Change insert_o4, Resume 0] (fresh broken_store) =
     (Some (Inr ()),
      \<lparr>ESclient = True, db = True,
       trace = [NewClient, MongoConnect, ListCollections, Find ''twins'', Watch,
                Console (ConsoleLog [Str ''insert'']),
                Index ''sync__orders'' (JObjectId ''o4'') (Some [(''status'', JString ''new'')]),
                Console (ConsoleLog [Str ''sync__orders'', Doc (Some [(''status'', JString ''new'')])])],
       world = broken_store\<lparr>indices := fmupd ''sync__orders'' (fmupd ''o4'' [(''status'', JString ''new'')] fmempty) fmempty\<rparr>\<rparr>,
      [], [])"
proof -
  let ?s1 = "\<lparr>ESclient = True, db = True, trace = [NewClient, MongoConnect], world = broken_store\<rparr>"
  let ?s2 = "\<lparr>ESclient = True, db = True,
              trace = [NewClient, MongoConnect, ListCollections, Find ''twins''], world = broken_store\<rparr>"
  have h1: "\<not> opt_debug example_option"
    by code_simp
  have h2: "opt_initialSync example_option"
    by code_simp
  have h3: "connect example_option example_env (fresh broken_store) = (Inr (), ?s1)"
    by code_simp
  have h4: "initDbSync example_option example_env None ?s1 = (Inl (Error ''read failed''), ?s2)"
    by code_simp
  from snapshot_failure_swallowed [OF h1 h2 h3 h4, of "[Change insert_o4, Resume 0]"]
  have "startSync example_option example_env None [Change insert_o4, Resume 0] (fresh broken_store) =
           (case await example_option example_env [Change insert_o4, Resume 0] (initWatcher ?s2) of
              ((Pending, s3, hs), rest) \<Rightarrow> (None, s3, hs, rest)
            | ((Resolved, s3, hs), rest) \<Rightarrow> (Some (Inr ()), s3, hs, rest)
            | ((Rejected e', s3, hs), rest) \<Rightarrow> (Some (Inr ()), console_log [Err e'] s3, hs, rest))"
    by blast
  then show ?thesis
    by (simp only:) code_simp
qed

section \<open>Event translator\<close>

text \<open>What the translator does with a delete event that names a collection and a document key.\<close>

lemma delete_event_request:
  assumes "ns data = Some n"
    and "ns_coll n = Some coll"
    and "operationType data = ''delete''"
    and "documentKey data = Some key"
  shows "generateOperation opt env data s =
           deleteDataOnElastic opt env (field key ''_id'') (getPrefix env (opt_prefix opt) coll)
             (console_log [Str ''delete''] s)"
  using assms by (simp add: generateOperation_def Let_def)

lemma delete_error_propagates:
  assumes "ns data = Some n"
    and "ns_coll n = Some coll"
    and "operationType data = ''delete''"
    and "documentKey data = Some key"
    and "es_delete env (getPrefix env (opt_prefix opt) coll) (field key ''_id'') (world s) = (Inl e, w)"
  shows "fst (generateOperation opt env data s) = Inl e"
  using assms
  by (simp add: delete_event_request [OF assms(1-4)] deleteDataOnElastic_def run_defs)

text \<open>
  C1. The first delivery of the delete of \<open>o1\<close> removes the document from
  \<open>sync__orders\<close>. On the second delivery the index engine answers "not found", the
  client throws, and the translator rethrows: the index is left as it was, but the
  delivery ends in an error.
\<close>

theorem second_delete_throws:
  "fmlookup (documents_of (world (snd (initDbSync example_option example_env None (connected example_store)))) ''sync__orders'') ''o1'' =
     Some [(''status'', JString ''new'')] \<and>
   fst (generateOperation example_option example_env delete_o1
          (snd (initDbSync example_option example_env None (connected example_store)))) = Inr () \<and>
   fmlookup (documents_of (world (snd (generateOperation example_option example_env delete_o1
          (snd (initDbSync example_option example_env None (connected example_store)))))) ''sync__orders'') ''o1'' = None \<and>
   fst (generateOperation example_option example_env delete_o1
          (snd (generateOperation example_option example_env delete_o1
             (snd (initDbSync example_option example_env None (connected example_store)))))) = Inl (ResponseError 404) \<and>
   world (snd (generateOperation example_option example_env delete_o1
          (snd (generateOperation example_option example_env delete_o1
             (snd (initDbSync example_option example_env None (connected example_store))))))) =
   world (snd (generateOperation example_option example_env delete_o1
             (snd (initDbSync example_option example_env None (connected example_store)))))"
  by code_simp

text \<open>The snapshot loader does not read a collection of the exclusion list.\<close>

lemma createBulkDataOnElastic_reads_nothing:
  assumes "Find c \<notin> set (trace s)"
  shows "Find c \<notin> set (trace (snd (createBulkDataOnElastic opt env index body s)))"
  using assms
  by (auto simp: createBulkDataOnElastic_def run_defs Let_def split: sum.splits prod.splits if_splits)

lemma loader_skips_excluded:
  assumes "c \<in> set ex"
    and "Find c \<notin> set (trace s)"
  shows "Find c \<notin> set (trace (snd (initDbSync_loop opt env (Some ex) cs s)))"
  using assms(2)
proof (induction cs arbitrary: s)
  case Nil
  then show ?case by simp
next
  case (Cons x cs)
  show ?case
  proof (cases "skipped (Some ex) x")
    case True
    then show ?thesis using Cons by simp
  next
    case False
    then obtain d where x: "x = Some d" and d: "d \<noteq> c"
      using assms(1) by (cases x) (auto simp: skipped_def)
    obtain r s1 where f: "call (Find d) (mongo_find env d) s = (r, s1)"
      by (cases "call (Find d) (mongo_find env d) s")
    then have t1: "Find c \<notin> set (trace s1)"
      using Cons.prems d by (auto simp: run_defs split: prod.splits)
    show ?thesis
    proof (cases r)
      case (Inl e)
      then show ?thesis using False x f t1 by simp
    next
      case (Inr allData)
      obtain r2 s2 where b: "createBulkDataOnElastic opt env (getPrefix env (opt_prefix opt) d) allData s1 = (r2, s2)"
        by (cases "createBulkDataOnElastic opt env (getPrefix env (opt_prefix opt) d) allData s1")
      have t2: "Find c \<notin> set (trace s2)"
        using createBulkDataOnElastic_reads_nothing [OF t1, of opt env "getPrefix env (opt_prefix opt) d" allData] b
        by simp
      show ?thesis
        using False x f Inr b t2 Cons.IH [OF t2] by (cases r2) simp_all
    qed
  qed
qed

text \<open>
  C3. With \<open>pages\<close> excluded, the snapshot does not read \<open>pages\<close>; the insert into
  \<open>pages\<close> that the feed reports next is written to \<open>sync__pages\<close> all the same: the
  exclusion list never reaches the watcher.
\<close>

theorem excluded_collection_indexed_by_event:
  "Find ''pages'' \<notin> set (trace (fst (snd (startSync example_option example_env (Some [''pages'']) [Change insert_p2, Resume 0] (fresh example_store))))) \<and>
   Index ''sync__pages'' (JObjectId ''p2'') (Some [(''title'', JString ''about'')])
     \<in> set (trace (fst (snd (startSync example_option example_env (Some [''pages'']) [Change insert_p2, Resume 0] (fresh example_store))))) \<and>
   fmlookup (indices (world (fst (snd (startSync example_option example_env (Some [''pages'']) [Change insert_p2, Resume 0] (fresh example_store))))))
      ''sync__pages'' = Some (fmupd ''p2'' [(''title'', JString ''about'')] fmempty)"
  by code_simp

text \<open>In the bulk body every action carries the collection's index and a string id.\<close>

lemma bulk_data_ids_are_strings:
  assumes "bulk_data index body = Inr data"
    and "Action i v \<in> set data"
  shows "i = index \<and> is_JString v"
  using assms
proof (induction body arbitrary: data)
  case Nil
  then show ?case by simp
next
  case (Cons doc docs)
  then show ?case
    by (auto simp: is_JString_def split: sum.splits)
qed

text \<open>
  C4. The snapshot loader stringifies the \<open>_id\<close>; the translator does not. The delete,
  insert and update requests for documents whose \<open>_id\<close> is an object id carry the object
  id itself, not a string.
\<close>

theorem translator_passes_native_id:
  "trace (snd (generateOperation example_option example_env delete_o1 (connected example_store))) =
     [Console (ConsoleLog [Str ''delete'']), Delete ''sync__orders'' (JObjectId ''o1'')] \<and>
   trace (snd (generateOperation example_option example_env insert_o4 (connected example_store))) =
     [Console (ConsoleLog [Str ''insert'']),
      Index ''sync__orders'' (JObjectId ''o4'') (Some [(''status'', JString ''new'')]),
      Console (ConsoleLog [Str ''sync__orders'', Doc (Some [(''status'', JString ''new'')])])] \<and>
   trace (snd (generateOperation example_option example_env update_o2 (connected example_store))) =
     [Console (ConsoleLog [Str ''update'']),
      Console (ConsoleLog [Doc (Some [(''status'', JString ''shipped'')])]),
      Update ''sync__orders'' (JObjectId ''o2'') (Some [(''status'', JString ''shipped'')])] \<and>
   \<not> is_JString (JObjectId ''o1'') \<and> \<not> is_JString (JObjectId ''o4'') \<and> \<not> is_JString (JObjectId ''o2'') \<and>
   map (\<lambda>l. case l of Action i v \<Rightarrow> is_JString v | Source d \<Rightarrow> True)
       (projr (bulk_data ''sync__orders'' orders)) = [True, True, True, True, True, True]"
  by code_simp

text \<open>An event of another kind that names a collection is logged and nothing else happens.\<close>

lemma unhandled_kind_on_collection:
  assumes "ns data = Some n"
    and "ns_coll n = Some coll"
    and "operationType data \<noteq> ''delete''"
    and "operationType data \<noteq> ''insert''"
    and "operationType data \<noteq> ''update''"
    and "operationType data \<noteq> ''drop''"
  shows "generateOperation opt env data s =
           (Inr (), s\<lparr>trace := trace s @
              [Console (ConsoleLog [Str (operationType data)]),
               Console (ConsoleLog
                 [Str (''ERROR: mongo-elastic-sync: Unhandled operation '' @ operationType data @
                       '', log it here: https://github.com/souravj96/mongo-elastic-sync/issues'')])]\<rparr>)"
  using assms by (cases s) (simp add: generateOperation_def Let_def run_defs)

text \<open>
  C9. The index name is computed before the kind is looked at. The two events of a
  dropped database are of no handled kind, and the translator throws a TypeError on
  each, with nothing logged; an unhandled kind on a collection (a rename) is logged and
  skipped.
\<close>

theorem event_without_collection_throws:
  "generateOperation example_option example_env dropDatabase_event (connected example_store) =
     (Inl TypeError, connected example_store) \<and>
   generateOperation example_option example_env invalidate_event (connected example_store) =
     (Inl TypeError, connected example_store) \<and>
   fst (generateOperation example_option example_env rename_event (connected example_store)) = Inr ()"
  by code_simp

section \<open>Snapshot loader: running it again\<close>

lemma write_docs_Cons: "write_docs (w # ws) m = write_docs ws (write_doc w m)"
  by (simp add: write_docs_def)

lemma fold_fmupd_fmadd:
  "fold (\<lambda>(k, d). fmupd k d) kds m = m ++\<^sub>f fmap_of_list (rev kds)"
proof (induction kds arbitrary: m)
  case Nil
  show ?case by simp
next
  case (Cons kd kds)
  obtain k d where kd: "kd = (k, d)" by (cases kd)
  have "fmupd k d m ++\<^sub>f fmap_of_list (rev kds) =
        m ++\<^sub>f (fmupd k d fmempty ++\<^sub>f fmap_of_list (rev kds))"
    by (metis fmadd_assoc fmadd_empty(2) fmadd_fmupd)
  then show ?case
    by (simp add: kd Cons.IH)
qed

lemma fold_fmupd_twice:
  "fold (\<lambda>(k, d). fmupd k d) kds (fold (\<lambda>(k, d). fmupd k d) kds m) = fold (\<lambda>(k, d). fmupd k d) kds m"
proof -
  have "m ++\<^sub>f fmap_of_list (rev kds) ++\<^sub>f fmap_of_list (rev kds) =
        m ++\<^sub>f (fmap_of_list (rev kds) ++\<^sub>f fmap_of_list (rev kds))"
    by (rule fmadd_assoc [symmetric])
  then show ?thesis
    by (simp only: fold_fmupd_fmadd fmadd_idempotent)
qed

text \<open>The documents of index \<open>i\<close> after a list of writes: the writes to \<open>i\<close>, in order.\<close>

lemma lookup_write_docs:
  "fmlookup (write_docs ws m) i =
     (if i \<in> fst ` set ws
      then Some (fold (\<lambda>(k, d). fmupd k d) (map snd (filter (\<lambda>w. fst w = i) ws)) (docs_in m i))
      else fmlookup m i)"
proof (induction ws arbitrary: m)
  case Nil
  show ?case by (simp add: write_docs_def)
next
  case (Cons w ws)
  obtain j k d where w: "w = (j, k, d)" by (cases w)
  have none: "filter (\<lambda>w. fst w = i) ws = []" if "i \<notin> fst ` set ws"
    using that by (induction ws) auto
  show ?case
    by (simp add: write_docs_Cons Cons.IH w write_doc_def docs_in_def none)
qed

lemma write_docs_twice: "write_docs ws (write_docs ws m) = write_docs ws m"
proof (rule fmap_ext)
  fix i
  show "fmlookup (write_docs ws (write_docs ws m)) i = fmlookup (write_docs ws m) i"
  proof (cases "i \<in> fst ` set ws")
    case True
    then have "docs_in (write_docs ws m) i =
               fold (\<lambda>(k, d). fmupd k d) (map snd (filter (\<lambda>w. fst w = i) ws)) (docs_in m i)"
      by (simp add: docs_in_def lookup_write_docs)
    with True show ?thesis
      by (simp add: lookup_write_docs fold_fmupd_twice)
  next
    case False
    then show ?thesis by (simp add: lookup_write_docs)
  qed
qed

text \<open>On the reference store a bulk body built by \<open>bulk_data\<close> is these writes.\<close>

lemma put_string_id:
  "put i (JString k) d w = w\<lparr>indices := write_doc (i, k, d) (indices w)\<rparr>"
  by (simp add: put_def request_id_def write_doc_def docs_in_def documents_of_def)

lemma bulk_writes_bulk_data:
  assumes "bulk_data index body = Inr data"
  shows "bulk_writes data = Some (map (\<lambda>(i, k, d). (i, JString k, d)) (bulk_writes_of index body))"
  using assms
proof (induction body arbitrary: data)
  case Nil
  then show ?case by simp
next
  case (Cons doc docs)
  then show ?case
    by (auto split: sum.splits)
qed

lemma fold_put_writes:
  "fold (\<lambda>(index, ident, doc). put index ident doc) (map (\<lambda>(i, k, d). (i, JString k, d)) ws) w =
     w\<lparr>indices := write_docs ws (indices w)\<rparr>"
proof (induction ws arbitrary: w)
  case Nil
  show ?case by (simp add: write_docs_def)
next
  case (Cons x ws)
  obtain i k d where x: "x = (i, k, d)" by (cases x)
  show ?case
    by (simp add: x Cons.IH put_string_id write_docs_Cons)
qed

lemma ref_bulk_bulk_data:
  assumes "bulk_data index body = Inr data"
  shows "snd (ref_bulk data w) = w\<lparr>indices := write_docs (bulk_writes_of index body) (indices w)\<rparr>"
  by (simp add: ref_bulk_def bulk_writes_bulk_data [OF assms] fold_put_writes)

lemma ref_count_world: "snd (ref_count index w) = w"
  by (simp add: ref_count_def split: option.split)

lemma bulk_data_empty:
  assumes "bulk_data index body = Inr []"
  shows "bulk_writes_of index body = []"
  using assms by (cases body) (auto split: sum.splits)

text \<open>One bulk load of the documents \<open>body\<close> into \<open>index\<close>, on the indices of the reference store.\<close>

lemma createBulkDataOnElastic_ref_world:
  "world (snd (createBulkDataOnElastic opt (ref_env lower) index body s)) =
     (case bulk_data index body of
        Inl e \<Rightarrow> world s
      | Inr data \<Rightarrow> (world s)\<lparr>indices := write_docs (bulk_writes_of index body) (indices (world s))\<rparr>)"
proof (cases "bulk_data index body")
  case (Inl e)
  then show ?thesis
    by (simp add: createBulkDataOnElastic_def run_defs Let_def)
next
  case (Inr data)
  show ?thesis
  proof (cases "data = []")
    case True
    with Inr bulk_data_empty [of index body] show ?thesis
      by (simp add: createBulkDataOnElastic_def run_defs Let_def write_docs_def)
  next
    case False
    obtain r w1 where b: "ref_bulk data (world s) = (r, w1)"
      by (cases "ref_bulk data (world s)")
    have w1: "w1 = (world s)\<lparr>indices := write_docs (bulk_writes_of index body) (indices (world s))\<rparr>"
      using ref_bulk_bulk_data [OF Inr, of "world s"] b by simp
    obtain r2 w2 where c: "ref_count index w1 = (r2, w2)"
      by (cases "ref_count index w1")
    have w2: "w2 = w1"
      using ref_count_world [of index w1] c by simp
    show ?thesis
      using Inr False b c w1 w2
      by (cases r; cases r2)
         (simp_all add: createBulkDataOnElastic_def run_defs Let_def ref_env_def
                   split: if_splits)
  qed
qed

lemma bulk_writes_of_index:
  "w \<in> set (bulk_writes_of index body) \<Longrightarrow> fst w = index"
  by (induction body) (auto split: sum.splits)

lemma bulk_data_nonempty:
  assumes "bulk_data index body = Inr data"
    and "data \<noteq> []"
  shows "bulk_writes_of index body \<noteq> []"
  using assms by (cases body) (auto split: sum.splits)

text \<open>On the reference store a bulk load fails only on a document whose id does not print.\<close>

lemma createBulkDataOnElastic_ref_result:
  "fst (createBulkDataOnElastic opt (ref_env lower) index body s) =
     (case bulk_data index body of Inl e \<Rightarrow> Inl e | Inr data \<Rightarrow> Inr ())"
proof (cases "bulk_data index body")
  case (Inl e)
  then show ?thesis
    by (simp add: createBulkDataOnElastic_def run_defs Let_def)
next
  case (Inr data)
  show ?thesis
  proof (cases "data = []")
    case True
    with Inr show ?thesis
      by (simp add: createBulkDataOnElastic_def run_defs Let_def)
  next
    case False
    let ?ws = "bulk_writes_of index body"
    let ?w1 = "(world s)\<lparr>indices := write_docs ?ws (indices (world s))\<rparr>"
    obtain r w1 where b: "ref_bulk data (world s) = (r, w1)"
      by (cases "ref_bulk data (world s)")
    have w1: "w1 = ?w1"
      using ref_bulk_bulk_data [OF Inr, of "world s"] b by simp
    have r: "\<exists>resp. r = Inr resp"
      using b by (auto simp: ref_bulk_def bulk_writes_bulk_data [OF Inr])
    obtain x where "x \<in> set ?ws"
      using bulk_data_nonempty [OF Inr False] by (cases ?ws) auto
    then have "index \<in> fst ` set ?ws"
      using bulk_writes_of_index [of x index body] by force
    then have "\<exists>m. fmlookup (indices ?w1) index = Some m"
      by (simp add: lookup_write_docs)
    then have c: "\<exists>n. ref_count index w1 = (Inr n, w1)"
      by (auto simp: ref_count_def w1)
    show ?thesis
      using Inr False b r c
      by (auto simp: createBulkDataOnElastic_def run_defs Let_def ref_env_def)
  qed
qed

lemma write_docs_append:
  "write_docs (xs @ ys) m = write_docs ys (write_docs xs m)"
  by (simp add: write_docs_def)

text \<open>One run of the loop on the reference store makes the writes of \<open>loader_writes\<close> and no other change.\<close>

lemma initDbSync_loop_ref_world:
  "world (snd (initDbSync_loop opt (ref_env lower) excl cs s)) =
     (world s)\<lparr>indices :=
        write_docs (loader_writes (ref_env lower) (opt_prefix opt) (collections (world s)) (unreadable (world s)) excl cs)
          (indices (world s))\<rparr>"
proof (induction cs arbitrary: s)
  case Nil
  show ?case by (simp add: write_docs_def)
next
  case (Cons x cs)
  show ?case
  proof (cases "skipped excl x")
    case True
    then show ?thesis by (simp add: Cons.IH)
  next
    case False
    then obtain c where x: "x = Some c"
      by (cases x) (auto simp: skipped_def)
    show ?thesis
    proof (cases "c \<in> set (unreadable (world s))")
      case True
      with False x show ?thesis
        by (simp add: run_defs ref_env_def ref_find_def write_docs_def)
    next
      case readable: False
      let ?body = "case map_of (collections (world s)) c of None \<Rightarrow> [] | Some (t, ds) \<Rightarrow> ds"
      let ?s1 = "s\<lparr>trace := trace s @ [Find c]\<rparr>"
      let ?index = "getPrefix (ref_env lower) (opt_prefix opt) c"
      have f: "call (Find c) (mongo_find (ref_env lower) c) s = (Inr ?body, ?s1)"
        using readable by (cases s) (simp add: run_defs ref_env_def ref_find_def)
      obtain r2 s2 where b: "createBulkDataOnElastic opt (ref_env lower) ?index ?body ?s1 = (r2, s2)"
        by (cases "createBulkDataOnElastic opt (ref_env lower) ?index ?body ?s1")
      have r2: "r2 = (case bulk_data ?index ?body of Inl e \<Rightarrow> Inl e | Inr data \<Rightarrow> Inr ())"
        using createBulkDataOnElastic_ref_result [of opt lower ?index ?body ?s1] b by simp
      have w2: "world s2 =
                  (case bulk_data ?index ?body of
                     Inl e \<Rightarrow> world s
                   | Inr data \<Rightarrow> (world s)\<lparr>indices := write_docs (bulk_writes_of ?index ?body) (indices (world s))\<rparr>)"
        using createBulkDataOnElastic_ref_world [of opt lower ?index ?body ?s1] b by (simp split: sum.split)
      show ?thesis
      proof (cases "bulk_data ?index ?body")
        case (Inl e)
        with False x readable f b r2 w2 show ?thesis
          by (simp add: write_docs_def)
      next
        case (Inr data)
        with False x readable f b r2 w2 show ?thesis
          by (simp add: Cons.IH write_docs_append)
      qed
    qed
  qed
qed

lemma initDbSync_ref_world:
  "world (snd (initDbSync opt (ref_env lower) excl s)) =
     (world s)\<lparr>indices :=
        write_docs
          (loader_writes (ref_env lower) (opt_prefix opt) (collections (world s)) (unreadable (world s)) excl
             (collection_names (map (\<lambda>(n, t, ds). \<lparr>ci_name = n, ci_type = t\<rparr>) (collections (world s)))))
          (indices (world s))\<rparr>"
proof -
  let ?arr = "map (\<lambda>(n, t, ds). \<lparr>ci_name = n, ci_type = t\<rparr>) (collections (world s))"
  let ?s1 = "s\<lparr>trace := trace s @ [ListCollections]\<rparr>"
  have l: "call ListCollections (mongo_listCollections (ref_env lower)) s = (Inr ?arr, ?s1)"
    by (cases s) (simp add: run_defs ref_env_def ref_listCollections_def)
  obtain r s2 where lp: "initDbSync_loop opt (ref_env lower) excl (collection_names ?arr) ?s1 = (r, s2)"
    by (cases "initDbSync_loop opt (ref_env lower) excl (collection_names ?arr) ?s1")
  have "world s2 =
          (world s)\<lparr>indices :=
             write_docs (loader_writes (ref_env lower) (opt_prefix opt) (collections (world s)) (unreadable (world s)) excl
                           (collection_names ?arr)) (indices (world s))\<rparr>"
    using initDbSync_loop_ref_world [of opt lower excl "collection_names ?arr" ?s1] lp by simp
  then show ?thesis
    using l lp by (cases r) (simp_all add: initDbSync_def run_defs)
qed

text \<open>
  C6. On the reference store, whatever the runtime's lower-casing does, a second run of
  the snapshot loader over the unchanged source leaves the indices exactly as the
  first run left them, and so does a second
  bulk load of the same documents into the same index: every bulk item carries the
  stringified \<open>_id\<close> as its id, so the second run writes the same documents under the
  same ids.
\<close>

theorem snapshot_twice_same_index:
  "indices (world (snd (initDbSync opt (ref_env lower) excl (snd (initDbSync opt (ref_env lower) excl s))))) =
   indices (world (snd (initDbSync opt (ref_env lower) excl s))) \<and>
   indices (world (snd (createBulkDataOnElastic opt (ref_env lower) index body
                          (snd (createBulkDataOnElastic opt (ref_env lower) index body s))))) =
   indices (world (snd (createBulkDataOnElastic opt (ref_env lower) index body s)))"
proof
  show "indices (world (snd (initDbSync opt (ref_env lower) excl (snd (initDbSync opt (ref_env lower) excl s))))) =
        indices (world (snd (initDbSync opt (ref_env lower) excl s)))"
    by (simp add: initDbSync_ref_world write_docs_twice)
  show "indices (world (snd (createBulkDataOnElastic opt (ref_env lower) index body
                          (snd (createBulkDataOnElastic opt (ref_env lower) index body s))))) =
        indices (world (snd (createBulkDataOnElastic opt (ref_env lower) index body s)))"
    by (cases "bulk_data index body")
       (simp_all add: createBulkDataOnElastic_ref_world write_docs_twice)
qed

text \<open>The example: after one run and after two, \<open>sync__orders\<close> holds the three orders under their string ids.\<close>

lemma snapshot_twice_example:
  "indices (world (snd (initDbSync example_option example_env None
                          (snd (initDbSync example_option example_env None (connected example_store)))))) =
   fmap_of_list
     [(''sync__twins'', fmap_of_list [(''7'', [(''v'', JNumber ''2'')])]),
      (''sync__orders'', fmap_of_list [(''o1'', [(''status'', JString ''new'')]),
                                        (''o2'', [(''status'', JString ''paid'')]),
                                        (''o3'', [(''status'', JString ''new'')])]),
      (''sync__pages'', fmap_of_list [(''p1'', [(''title'', JString ''home'')])])]"
  by code_simp

section \<open>Change feed consumer: when the consume operation completes\<close>

text \<open>The translation in its three parts is the translation.\<close>

lemma generateOperation_phases:
  "generateOperation opt env data s =
     (case begin_operation opt env data s of
        (Inl e, s1) \<Rightarrow> (Inl e, s1)
      | (Inr None, s1) \<Rightarrow> (Inr (), s1)
      | (Inr (Some rq), s1) \<Rightarrow>
          (case perform env rq (world s1) of (r, w) \<Rightarrow> end_operation opt rq r (s1\<lparr>world := w\<rparr>)))"
  by (cases s)
     (simp add: generateOperation_def begin_operation_def end_operation_def perform_def
        deleteDataOnElastic_def createDataOnElastic_def updateDataOnElastic_def dropIndexOnElastic_def
        run_defs Let_def
        split: option.split prod.split sum.split)

text \<open>A call of the handler that goes on right after it was suspended has handled its event in one piece.\<close>

lemma resume_last:
  "resume opt env (length hs) (p, s, hs @ [h]) =
     (case h of
        Finished r \<Rightarrow> (case settle opt r (p, s) of (p1, s1) \<Rightarrow> (p1, s1, hs))
      | Awaits rq \<Rightarrow>
          (case perform env rq (world s) of
             (r, w) \<Rightarrow>
               (case end_operation opt rq r (s\<lparr>world := w\<rparr>) of
                  (r1, s1) \<Rightarrow> (case settle opt r1 (p, s1) of (p2, s2) \<Rightarrow> (p2, s2, hs)))))"
  by (simp add: resume_def split: suspended.split)

lemma change_then_resume:
  "resume opt env (length hs) (on_change opt env data None (p, s, hs)) =
     (case generateOperation opt env data (debug_log opt ''Debug: Change event triggered'' s) of
        (r, s1) \<Rightarrow> (case settle opt r (p, s1) of (p1, s2) \<Rightarrow> (p1, s2, hs)))"
proof -
  let ?s0 = "debug_log opt ''Debug: Change event triggered'' s"
  obtain b s1 where bo: "begin_operation opt env data ?s0 = (b, s1)"
    by (cases "begin_operation opt env data ?s0")
  show ?thesis
  proof (cases b)
    case (Inl e)
    with bo show ?thesis
      by (simp add: on_change_def generateOperation_phases resume_last)
  next
    case (Inr x)
    show ?thesis
    proof (cases x)
      case None
      with bo Inr show ?thesis
        by (simp add: on_change_def generateOperation_phases resume_last)
    next
      case (Some rq)
      with bo Inr show ?thesis
        by (simp add: on_change_def generateOperation_phases resume_last split: prod.split)
    qed
  qed
qed

lemma settle_first:
  "fst (settle opt r (Pending, s)) = (case r of Inr u \<Rightarrow> Resolved | Inl e \<Rightarrow> Rejected e)"
  by (simp add: settle_def resolve_def reject_def split: sum.split)

lemma settle_settled:
  "p \<noteq> Pending \<Longrightarrow> fst (settle opt r (p, s)) = p"
  by (cases p) (simp_all add: settle_def resolve_def reject_def split: sum.split)

lemma settle_state:
  "snd (settle opt r (p, s)) = snd (settle opt r (q, s))"
  by (simp add: settle_def split: sum.split)

lemma step_settled:
  assumes "p \<noteq> Pending"
  shows "fst (step opt env st (p, s, hs)) = p"
proof (cases st)
  case (Change data)
  then show ?thesis
    by (simp add: step_def on_change_def Let_def split: option.split prod.split sum.split)
next
  case (Resume k)
  then show ?thesis
    using assms
    by (simp add: step_def resume_def split_beta settle_settled split: suspended.split)
qed

lemma deliver_settled:
  "fst ws \<noteq> Pending \<Longrightarrow> fst (deliver opt env steps ws) = fst ws"
proof (induction steps arbitrary: ws)
  case Nil
  show ?case by simp
next
  case (Cons st steps)
  obtain p s hs where ws: "ws = (p, s, hs)" by (cases ws)
  with Cons.prems have "fst (step opt env st ws) = p"
    by (simp add: step_settled)
  with Cons.prems ws show ?case
    using Cons.IH [of "step opt env st ws"] by simp
qed

lemma step_state:
  "snd (step opt env st (p, s, hs)) = snd (step opt env st (q, s, hs))"
proof (cases st)
  case (Change data)
  then show ?thesis
    by (simp add: step_def on_change_def Let_def split: option.split prod.split sum.split)
next
  case (Resume k)
  then show ?thesis
    by (simp add: step_def resume_def split_beta settle_state [of opt _ p _ q] split: suspended.split)
qed

lemma deliver_state:
  "snd (deliver opt env steps (p, s, hs)) = snd (deliver opt env steps (q, s, hs))"
proof (induction steps arbitrary: p q s hs)
  case Nil
  show ?case by simp
next
  case (Cons st steps)
  obtain p1 s1 hs1 where a: "step opt env st (p, s, hs) = (p1, s1, hs1)"
    by (cases "step opt env st (p, s, hs)")
  obtain q1 t1 is1 where b: "step opt env st (q, s, hs) = (q1, t1, is1)"
    by (cases "step opt env st (q, s, hs)")
  from step_state [of opt env st p s hs q] a b have "s1 = t1" and "hs1 = is1"
    by simp_all
  with a b Cons.IH [of p1 s1 hs1 q1] show ?case
    by simp
qed

lemma resume_first:
  "fst (resume opt env (length hs1) (Pending, s, hs1 @ h # hs2)) =
     (case outcome opt env h s of Inr u \<Rightarrow> Resolved | Inl e \<Rightarrow> Rejected e)"
  by (simp add: resume_def outcome_def split_beta settle_first split: suspended.split)

text \<open>
  C5, as the code has it. The promise of \<open>initWatcher\<close> settles as soon as one call of
  the handler has run to its end, whichever event it handles: resolved when that
  event's translation returned, rejected with its error when it threw. For an event
  handled to its end before anything else happens that is the first event, and
  awaiting the promise hands back every later step untaken. The handler stays
  registered: the settled promise does not change, and every later event is handled
  just as if the promise were still pending.
\<close>

theorem consume_settles_with_first_finished_call:
  "fst (resume opt env (length hs1) (Pending, s', hs1 @ h # hs2)) =
     (case outcome opt env h s' of Inr u \<Rightarrow> Resolved | Inl e \<Rightarrow> Rejected e) \<and>
   fst (deliver opt env (Change data # Resume 0 # rest) (initWatcher s)) =
     (case fst (generateOperation opt env data (debug_log opt ''Debug: Change event triggered'' (emit Watch s))) of
        Inr u \<Rightarrow> Resolved
      | Inl e \<Rightarrow> Rejected e) \<and>
   await opt env (Change data # Resume 0 # rest) (initWatcher s) =
     (deliver opt env [Change data, Resume 0] (initWatcher s), rest) \<and>
   fst (deliver opt env steps (Resolved, s', hs)) = Resolved \<and>
   fst (deliver opt env steps (Rejected e, s', hs)) = Rejected e \<and>
   snd (deliver opt env steps (p, s', hs)) = snd (deliver opt env steps (Pending, s', hs))"
proof (intro conjI)
  let ?s0 = "debug_log opt ''Debug: Change event triggered'' (emit Watch s)"
  obtain r s1 where g: "generateOperation opt env data ?s0 = (r, s1)"
    by (cases "generateOperation opt env data ?s0")
  obtain p1 s2 where st: "settle opt r (Pending, s1) = (p1, s2)"
    by (cases "settle opt r (Pending, s1)")
  have p1: "p1 = (case r of Inr u \<Rightarrow> Resolved | Inl e \<Rightarrow> Rejected e)"
    using settle_first [of opt r s1] st by simp
  have two: "deliver opt env [Change data, Resume 0] (initWatcher s) = (p1, s2, [])"
    using change_then_resume [of opt env "[]" data Pending "emit Watch s"] g st
    by (simp add: step_def initWatcher_def)
  have settled: "p1 \<noteq> Pending"
    by (simp add: p1 split: sum.split)
  have pending: "fst (step opt env (Change data) (initWatcher s)) = Pending"
    by (simp add: step_def on_change_def initWatcher_def Let_def split: option.split prod.split sum.split)
  show "fst (resume opt env (length hs1) (Pending, s', hs1 @ h # hs2)) =
          (case outcome opt env h s' of Inr u \<Rightarrow> Resolved | Inl e \<Rightarrow> Rejected e)"
    by (rule resume_first)
  have "deliver opt env (Change data # Resume 0 # rest) (initWatcher s) = deliver opt env rest (p1, s2, [])"
    using two by simp
  then show "fst (deliver opt env (Change data # Resume 0 # rest) (initWatcher s)) =
     (case fst (generateOperation opt env data ?s0) of Inr u \<Rightarrow> Resolved | Inl e \<Rightarrow> Rejected e)"
    using deliver_settled [of "(p1, s2, [])" opt env rest] settled p1 g by simp
  show "await opt env (Change data # Resume 0 # rest) (initWatcher s) =
          (deliver opt env [Change data, Resume 0] (initWatcher s), rest)"
    using two settled pending by (cases rest) (simp_all add: initWatcher_def)
  show "fst (deliver opt env steps (Resolved, s', hs)) = Resolved"
    using deliver_settled [of "(Resolved, s', hs)" opt env steps] by simp
  show "fst (deliver opt env steps (Rejected e, s', hs)) = Rejected e"
    using deliver_settled [of "(Rejected e, s', hs)" opt env steps] by simp
  show "snd (deliver opt env steps (p, s', hs)) = snd (deliver opt env steps (Pending, s', hs))"
    by (rule deliver_state)
qed

text \<open>
  C5, as stated, fails: once the handler has handled the one event \<open>insert_o4\<close> the
  promise of \<open>initWatcher\<close> is resolved, and \<open>startSync\<close>, which awaits it, has returned
  with the second event still to come.
\<close>

theorem consume_completes_after_first_event:
  "fst (deliver example_option example_env [Change insert_o4, Resume 0] (initWatcher (connected example_store))) = Resolved \<and>
   fst (startSync example_option example_env None
          [Change insert_o4, Resume 0, Change update_o2, Resume 0] (connected example_store)) = Some (Inr ()) \<and>
   snd (snd (snd (startSync example_option example_env None
          [Change insert_o4, Resume 0, Change update_o2, Resume 0] (connected example_store)))) =
     [Change update_o2, Resume 0]"
  by code_simp

text \<open>
  Two events emitted back to back, a delete of a document that is not in the index and
  a rename: the rename's call of the handler ends first and resolves the promise, and
  the rejection of the delete comes too late. Handled one at a time, the delete rejects it.
\<close>

lemma overlapping_calls_example:
  "fst (deliver example_option example_env
          [Change delete_o1, Change rename_event, Resume 1, Resume 0] (initWatcher (connected example_store))) = Resolved \<and>
   fst (deliver example_option example_env
          (one_at_a_time [delete_o1, rename_event]) (initWatcher (connected example_store))) = Rejected (ResponseError 404)"
  by code_simp

end
